theory Spec2Isabelle
  imports Main "HOL-Library.Sublist" "HOL-Library.List_Lexorder" "HOL-Library.Char_ord"
begin

section \<open>Python strings\<close>

text \<open>
  A Python \<open>str\<close> is modelled as a \<open>string\<close> whose characters are the code points
  below 256. The helpers below are the \<open>str\<close> methods the repository calls.
\<close>

abbreviation nl :: string where
  "nl \<equiv> [CHR 0x0A]"

definition is_space :: "char \<Rightarrow> bool" where
  \<comment> \<open>\<open>str.isspace\<close> on one character: TAB..CR, FS..US, space, NEL, NBSP.\<close>
  "is_space c = (let n = (of_char c :: nat)
     in (9 \<le> n \<and> n \<le> 13) \<or> (28 \<le> n \<and> n \<le> 32) \<or> n = 133 \<or> n = 160)"

definition lstrip :: "string \<Rightarrow> string" where
  "lstrip s = dropWhile is_space s"

definition rstrip :: "string \<Rightarrow> string" where
  "rstrip s = rev (dropWhile is_space (rev s))"

definition strip :: "string \<Rightarrow> string" where
  "strip s = rstrip (lstrip s)"

definition is_linebreak :: "char \<Rightarrow> bool" where
  \<comment> \<open>the line boundaries of \<open>str.splitlines\<close>: LF, VT, FF, CR, FS, GS, RS, NEL.\<close>
  "is_linebreak c = (let n = (of_char c :: nat)
     in (10 \<le> n \<and> n \<le> 13) \<or> (28 \<le> n \<and> n \<le> 30) \<or> n = 133)"

fun splitlines_from :: "string \<Rightarrow> string \<Rightarrow> string list" where
  "splitlines_from cur [] = (if cur = [] then [] else [cur])"
| "splitlines_from cur [c] = (if is_linebreak c then [cur] else [cur @ [c]])"
| "splitlines_from cur (c # d # cs) =
     (if c = CHR 0x0D \<and> d = CHR 0x0A then cur # splitlines_from [] cs
      else if is_linebreak c then cur # splitlines_from [] (d # cs)
      else splitlines_from (cur @ [c]) (d # cs))"

definition splitlines :: "string \<Rightarrow> string list" where
  \<comment> \<open>\<open>s.splitlines()\<close>: no line for a trailing boundary, CR LF is one boundary.\<close>
  "splitlines s = splitlines_from [] s"

fun join :: "string \<Rightarrow> string list \<Rightarrow> string" where
  "join sep [] = []"
| "join sep [x] = x"
| "join sep (x # y # ys) = x @ sep @ join sep (y # ys)"

definition join_lines :: "string list \<Rightarrow> string" where
  \<comment> \<open>\<open>"\n".join(ls) + ("\n" if ls else "")\<close>\<close>
  "join_lines ls = join nl ls @ (if ls = [] then [] else nl)"

fun contains :: "string \<Rightarrow> string \<Rightarrow> bool" where
  \<comment> \<open>\<open>sub in s\<close>\<close>
  "contains sub [] = (sub = [])"
| "contains sub (c # cs) = (prefix sub (c # cs) \<or> contains sub cs)"

function replace :: "string \<Rightarrow> string \<Rightarrow> string \<Rightarrow> string" where
  \<comment> \<open>\<open>s.replace(old, new)\<close>; the repository only calls it with a non-empty \<open>old\<close>.\<close>
  "replace old new [] = []"
| "replace old new (c # cs) =
     (if old \<noteq> [] \<and> prefix old (c # cs)
      then new @ replace old new (drop (length old) (c # cs))
      else c # replace old new cs)"
  by pat_completeness auto
termination
  by (relation "measure (\<lambda>(old, new, s). length s)") auto

definition lower_char :: "char \<Rightarrow> char" where
  "lower_char c = (let n = (of_char c :: nat)
     in if (65 \<le> n \<and> n \<le> 90) \<or> (192 \<le> n \<and> n \<le> 222 \<and> n \<noteq> 215)
        then char_of (n + 32) else c)"

definition lower :: "string \<Rightarrow> string" where
  "lower s = map lower_char s"

fun str_of_nat :: "nat \<Rightarrow> string" where
  \<comment> \<open>\<open>"%d" % n\<close> for a length or an index\<close>
  "str_of_nat n =
     (if n < 10 then [char_of (48 + n)]
      else str_of_nat (n div 10) @ [char_of (48 + n mod 10)])"

declare str_of_nat.simps [simp del]

definition py_slice :: "'a list \<Rightarrow> int \<Rightarrow> int \<Rightarrow> 'a list" where
  \<comment> \<open>\<open>xs[i:j]\<close>: a negative index counts from the end, both are clamped.\<close>
  "py_slice xs i j =
     (let n = int (length xs);
          lo = (if i < 0 then max (i + n) 0 else min i n);
          hi = (if j < 0 then max (j + n) 0 else min j n)
      in take (nat (hi - lo)) (drop (nat lo) xs))"


section \<open>Paths\<close>

text \<open>
  \<open>pathlib\<close> on POSIX, on a file system without symbolic links. A resolved absolute
  path is the list of its components; the repository root is such a list.
  \<open>PatchEngine.__init__\<close> stores \<open>Path(repo_root).resolve()\<close>.
\<close>

type_synonym path = "string list"

fun split_from :: "string \<Rightarrow> char \<Rightarrow> string \<Rightarrow> string list" where
  "split_from cur c [] = [cur]"
| "split_from cur c (x # xs) =
     (if x = c then cur # split_from [] c xs else split_from (cur @ [x]) c xs)"

definition path_parts :: "string \<Rightarrow> string list" where
  \<comment> \<open>the components \<open>pathlib\<close> keeps: empty ones and \<open>.\<close> are dropped, \<open>..\<close> stays\<close>
  "path_parts s = filter (\<lambda>p. p \<noteq> [] \<and> p \<noteq> ''.'') (split_from [] (CHR ''/'') s)"

definition is_absolute :: "string \<Rightarrow> bool" where
  "is_absolute s = (case s of [] \<Rightarrow> False | c # _ \<Rightarrow> c = CHR ''/'')"

definition anchor :: "string \<Rightarrow> string" where
  \<comment> \<open>POSIX keeps exactly two leading slashes as a root of their own\<close>
  "anchor s = (if prefix ''//'' s \<and> \<not> prefix ''///'' s then ''//'' else ''/'')"

fun resolve_from :: "path \<Rightarrow> string list \<Rightarrow> path" where
  \<comment> \<open>\<open>Path.resolve\<close>: \<open>..\<close> leaves the last component, and stays at the root\<close>
  "resolve_from stack [] = stack"
| "resolve_from stack (p # ps) =
     (if p = ''..'' then resolve_from (butlast stack) ps
      else resolve_from (stack @ [p]) ps)"

definition resolved :: "path \<Rightarrow> string \<Rightarrow> path" where
  \<comment> \<open>\<open>(repo_root / rel_path).resolve()\<close>: an absolute \<open>rel_path\<close> replaces the root\<close>
  "resolved root rel = resolve_from (if is_absolute rel then [] else root) (path_parts rel)"

definition path_str :: "path \<Rightarrow> string" where
  "path_str p = ''/'' @ join ''/'' p"

definition joined_str :: "path \<Rightarrow> string \<Rightarrow> string" where
  \<comment> \<open>\<open>str(repo_root / rel_path)\<close>, not resolved\<close>
  "joined_str root rel =
     (if is_absolute rel then anchor rel @ join ''/'' (path_parts rel)
      else path_str (root @ path_parts rel))"

definition inside_repo :: "path \<Rightarrow> string \<Rightarrow> bool" where
  \<comment> \<open>\<open>str(path.resolve()).startswith(str(self.repo_root))\<close>\<close>
  "inside_repo root rel = prefix (path_str root) (path_str (resolved root rel))"


section \<open>The patch engine\<close>

text \<open>
  The file system is a map from resolved paths to file contents. Directories are created
  on demand by the code (\<open>mkdir(parents=True, exist_ok=True)\<close>) and are not part of the
  state; failures of the operating system are outside the model.
\<close>

type_synonym fs = "path \<rightharpoonup> string"

datatype error = ValueError string | TypeError

record patch =
  path :: string
  diff :: string
  content :: "string option"
  risk :: string
  summary :: string

definition make_unified_diff :: "string \<Rightarrow> string list \<Rightarrow> string list \<Rightarrow> string" where
  "make_unified_diff p old_lines new_lines =
     (let rel = replace [CHR 0x5C] ''/'' p;
          lines = [''--- a/'' @ rel, ''+++ b/'' @ rel,
                   ''@@ -1,'' @ str_of_nat (length old_lines) @ '' +1,''
                     @ str_of_nat (length new_lines) @ '' @@'']
                  @ map (\<lambda>line. (if line \<in> set old_lines then '' '' else ''+'') @ line)
                      new_lines
      in join nl lines @ nl)"

definition create_add_file_patch :: "path \<Rightarrow> string \<Rightarrow> string \<Rightarrow> string \<Rightarrow> error + patch" where
  "create_add_file_patch root rel_path cont rsk =
     (if \<not> inside_repo root rel_path then Inl (ValueError ''Path outside repo_root'')
      else Inr \<lparr>path = rel_path,
               diff = make_unified_diff (joined_str root rel_path) []
                        (if cont \<noteq> [] then splitlines cont else []),
               content = Some cont,
               risk = rsk,
               summary = ''Add '' @ rel_path\<rparr>)"

definition create_edit_patch ::
  "path \<Rightarrow> string \<Rightarrow> string \<Rightarrow> string \<Rightarrow> string \<Rightarrow> error + patch" where
  "create_edit_patch root rel_path old_content new_content rsk =
     (if \<not> inside_repo root rel_path then Inl (ValueError ''Path outside repo_root'')
      else Inr \<lparr>path = rel_path,
               diff = make_unified_diff (joined_str root rel_path)
                        (if old_content \<noteq> [] then splitlines old_content else [])
                        (if new_content \<noteq> [] then splitlines new_content else []),
               content = Some new_content,
               risk = rsk,
               summary = ''Edit '' @ rel_path\<rparr>)"

text \<open>
  The entries of an \<open>errors\<close> list. \<open>Skipped p\<close> stands for the message
  \<open>"Skipped %s: outside repo" % p\<close>; the others are the messages of the extraction engine.
\<close>

datatype message =
    Skipped string
  | MixedNames nat "string list"
  | MissingScriptLine nat
  | CouldNotExtract nat string string

definition patch_text :: "patch \<Rightarrow> string" where
  \<comment> \<open>what \<open>apply_patches\<close> writes: the content, or else the added lines of the diff\<close>
  "patch_text p =
     (case content p of
        Some c \<Rightarrow> c
      | None \<Rightarrow>
          join_lines (map tl (filter (\<lambda>ln. prefix ''+'' ln \<and> \<not> prefix ''+++'' ln)
                                (splitlines (diff p)))))"

fun apply_loop ::
  "path \<Rightarrow> string \<Rightarrow> patch list \<Rightarrow> fs \<times> string list \<times> message list
     \<Rightarrow> fs \<times> string list \<times> message list" where
  "apply_loop root mode [] st = st"
| "apply_loop root mode (p # ps) (files, applied, errs) =
     (if \<not> inside_repo root (path p)
      then apply_loop root mode ps (files, applied, errs @ [Skipped (path p)])
      else if mode = ''write''
      then apply_loop root mode ps
             (files(resolved root (path p) \<mapsto> patch_text p), applied @ [path p], errs)
      else apply_loop root mode ps (files, applied @ [path p @ '' (dry-run)''], errs))"

definition apply_patches ::
  "path \<Rightarrow> patch list \<Rightarrow> string \<Rightarrow> fs \<Rightarrow> fs \<times> string list \<times> message list" where
  \<comment> \<open>returns the file system after the call, \<open>applied\<close> and \<open>errors\<close>\<close>
  "apply_patches root patches mode files = apply_loop root mode patches (files, [], [])"

fun files_after :: "path \<Rightarrow> patch list \<Rightarrow> fs \<Rightarrow> fs" where
  \<comment> \<open>the writes of \<open>apply_patches\<close> in write mode, on their own\<close>
  "files_after root [] files = files"
| "files_after root (p # ps) files =
     files_after root ps
       (if inside_repo root (path p) then files(resolved root (path p) \<mapsto> patch_text p)
        else files)"


section \<open>The structural duplicate detector\<close>

text \<open>
  The syntax tree of \<open>ast.parse\<close>, as far as the analyzers look at it: function
  definitions with their name, \<open>len(args.args)\<close>, body, \<open>lineno\<close> and \<open>end_lineno\<close>, the
  four statement kinds \<open>_normalize_ast\<close> names, and \<open>Other\<close> for every other node with
  the child nodes \<open>ast.iter_child_nodes\<close> gives it. Nodes that can hold no function
  definition (expressions, argument lists, aliases) are left out of the child lists.
\<close>

datatype node =
    FunctionDef string nat "node list" int int
  | Assign
  | Expr
  | Return
  | If "node list" "node list"
  | Other "node list"

fun children :: "node \<Rightarrow> node list" where
  "children (FunctionDef nm n body l e) = body"
| "children (If body orelse) = body @ orelse"
| "children (Other cs) = cs"
| "children Assign = []"
| "children Expr = []"
| "children Return = []"

function walk :: "node list \<Rightarrow> node list" where
  \<comment> \<open>\<open>ast.walk\<close>: breadth first, the queue extended on the right\<close>
  "walk [] = []"
| "walk (n # queue) = n # walk (queue @ children n)"
  by pat_completeness auto
termination
proof (relation "measure (\<lambda>q. sum_list (map size q) + length q)")
  show "wf (measure (\<lambda>q. sum_list (map size q) + length q))"
    by simp
next
  fix n :: node and queue :: "node list"
  have "sum_list (map size (children n)) + length (children n) \<le> size n"
    by (cases n) (simp_all add: size_list_conv_sum_list)
  then show "(queue @ children n, n # queue)
      \<in> measure (\<lambda>q. sum_list (map size q) + length q)"
    by simp
qed

fun normalize_ast :: "node \<Rightarrow> string" where
  "normalize_ast (FunctionDef nm n body l e) =
     ''def('' @ str_of_nat n @ ''):'' @ concat (map normalize_ast body)"
| "normalize_ast Assign = ''assign''"
| "normalize_ast Expr = ''expr''"
| "normalize_ast Return = ''return''"
| "normalize_ast (If body orelse) = ''if'' @ concat (map normalize_ast body)"
| "normalize_ast (Other cs) = []"

text \<open>
  What the analyzers are given from outside: the resolved repository root, Python's parser
  (\<open>None\<close> for a \<open>SyntaxError\<close>, else the body of the module), \<open>_hash_body\<close> (the first
  16 hexadecimal digits of SHA-256) and the \<open>py_files\<close> entry of \<open>RepoIndexer.scan\<close>.
\<close>

record env =
  repo_root :: path
  parse :: "string \<Rightarrow> node list option"
  hash_body :: "string \<Rightarrow> string"
  py_files :: "string list"

fun function_records :: "node list \<Rightarrow> (int \<times> string \<times> string) list" where
  "function_records [] = []"
| "function_records (FunctionDef nm n body l e # ns) =
     (l, nm, normalize_ast (FunctionDef nm n body l e)) # function_records ns"
| "function_records (x # ns) = function_records ns"

definition extract_functions :: "env \<Rightarrow> fs \<Rightarrow> string \<Rightarrow> (int \<times> string \<times> string) list" where
  \<comment> \<open>a missing file (\<open>OSError\<close>) or a \<open>SyntaxError\<close> gives no record\<close>
  "extract_functions E files sp =
     (case files (resolved (repo_root E) sp) of
        None \<Rightarrow> []
      | Some text \<Rightarrow>
          (case parse E text of
             None \<Rightarrow> []
           | Some body \<Rightarrow> function_records (walk body)))"

text \<open>
  A location is a dict with the keys \<open>script\<close>, \<open>line\<close> and \<open>name\<close>. The detector sets all
  three; a caller of the extraction may leave any of them out, which is \<open>None\<close> here, as
  \<open>loc.get(key)\<close> is in the code.
\<close>

record location =
  script :: "string option"
  line :: "int option"
  name :: "string option"

record cluster =
  hash :: string
  locations :: "location list"

record finding =
  f_type :: string
  f_cluster :: cluster
  f_count :: nat

type_synonym key = "string \<times> string option"

type_synonym groups = "(key \<times> location list) list"

fun setdefault_append :: "'k \<Rightarrow> 'v \<Rightarrow> ('k \<times> 'v list) list \<Rightarrow> ('k \<times> 'v list) list" where
  \<comment> \<open>\<open>d.setdefault(key, []).append(v)\<close> on an insertion-ordered dict\<close>
  "setdefault_append k v [] = [(k, [v])]"
| "setdefault_append k v ((k', vs) # rest) =
     (if k' = k then (k', vs @ [v]) # rest else (k', vs) # setdefault_append k v rest)"

fun scan_functions ::
  "env \<Rightarrow> bool \<Rightarrow> string \<Rightarrow> (int \<times> string \<times> string) list \<Rightarrow> groups \<Rightarrow> groups" where
  "scan_functions E same sp [] g = g"
| "scan_functions E same sp ((ln, nm, body) # recs) g =
     (if length body < 20 then scan_functions E same sp recs g
      else scan_functions E same sp recs
             (setdefault_append (hash_body E body, if same then Some nm else None)
                \<lparr>script = Some sp, line = Some ln, name = Some nm\<rparr> g))"

fun scan_scripts :: "env \<Rightarrow> fs \<Rightarrow> bool \<Rightarrow> string list \<Rightarrow> groups \<Rightarrow> groups" where
  "scan_scripts E files same [] g = g"
| "scan_scripts E files same (sp # sps) g =
     scan_scripts E files same sps
       (scan_functions E same sp (extract_functions E files sp) g)"

definition clusters_of :: "groups \<Rightarrow> cluster list" where
  "clusters_of g =
     map (\<lambda>(k, locs). \<lparr>hash = fst k, locations = locs\<rparr>)
       (filter (\<lambda>(k, locs). \<not> length locs \<le> 1) g)"

definition sort_clusters :: "cluster list \<Rightarrow> cluster list" where
  \<comment> \<open>\<open>clusters.sort(key=lambda c: len(c["locations"]), reverse=True)\<close>; Python's sort is
      stable, also when reversed\<close>
  "sort_clusters cs = sort_key (\<lambda>c. - int (length (locations c))) cs"

definition analyze ::
  "env \<Rightarrow> fs \<Rightarrow> string list option \<Rightarrow> int option \<Rightarrow> bool \<Rightarrow> cluster list \<times> finding list" where
  "analyze E files script_paths limit same_name_only =
     (let sps = (case script_paths of None \<Rightarrow> py_files E
                 | Some ps \<Rightarrow> if ps = [] then py_files E else ps);
          hash_to_locs = scan_scripts E files same_name_only sps [];
          sorted_clusters = sort_clusters (clusters_of hash_to_locs);
          clusters = (case limit of
                        None \<Rightarrow> sorted_clusters
                      | Some l \<Rightarrow> if l > 0 then take (nat l) sorted_clusters
                                  else sorted_clusters)
      in (clusters,
          map (\<lambda>c. \<lparr>f_type = ''duplicate'', f_cluster = c,
                     f_count = length (locations c)\<rparr>) clusters))"

section \<open>The library-structure proposer\<close>

record mapping_entry =
  m_function :: string
  from_scripts :: "string list"
  suggested_module :: string
  same_name :: bool
  mixed_names :: "string list option"

record proposal =
  suggested_tree :: "(string \<times> string list) list"
  mapping :: "mapping_entry list"
  p_findings :: "(string \<times> mapping_entry) list"

fun setdefault_extend :: "'k \<Rightarrow> 'v list \<Rightarrow> ('k \<times> 'v list) list \<Rightarrow> ('k \<times> 'v list) list" where
  \<comment> \<open>\<open>d.setdefault(key, []).extend(vs)\<close>\<close>
  "setdefault_extend k vs [] = [(k, vs)]"
| "setdefault_extend k vs ((k', ws) # rest) =
     (if k' = k then (k', ws @ vs) # rest else (k', ws) # setdefault_extend k vs rest)"

definition choose_module :: "string list \<Rightarrow> string" where
  "choose_module scripts =
     (if list_ex (\<lambda>s. contains ''ui'' (lower s) \<or> contains ''form'' (lower s)) scripts
      then ''lib/ui.py''
      else if list_ex (\<lambda>s. contains ''io'' (lower s) \<or> contains ''file'' (lower s)) scripts
      then ''lib/io.py''
      else ''lib/utils.py'')"

fun propose_loop ::
  "bool \<Rightarrow> cluster list \<Rightarrow> (string \<times> string list) list \<times> mapping_entry list
     \<Rightarrow> (string \<times> string list) list \<times> mapping_entry list" where
  "propose_loop same [] st = st"
| "propose_loop same (c # cs) (tree, m) =
     (let locs = locations c in
      if length locs < 2 then propose_loop same cs (tree, m)
      else
        let names = map (\<lambda>loc. case name loc of None \<Rightarrow> ''?'' | Some n \<Rightarrow> n) locs;
            unique_names = remdups names;
            same_nm = (length unique_names = 1)
        in if same \<and> \<not> same_nm then propose_loop same cs (tree, m)
           else
             let scripts = map (\<lambda>loc. case script loc of None \<Rightarrow> ''?'' | Some s \<Rightarrow> s) locs;
                 md = choose_module scripts
             in propose_loop same cs
                  (setdefault_extend md names tree,
                   m @ [\<lparr>m_function = (case names of [] \<Rightarrow> ''?'' | n # _ \<Rightarrow> n),
                          from_scripts = scripts,
                          suggested_module = md,
                          same_name = same_nm,
                          mixed_names = (if \<not> same_nm then Some (sort unique_names)
                                         else None)\<rparr>]))"

definition propose :: "env \<Rightarrow> fs \<Rightarrow> cluster list option \<Rightarrow> bool \<Rightarrow> proposal" where
  \<comment> \<open>\<open>preferences\<close> is never read; an absent or empty cluster list runs the detector\<close>
  "propose E files clusters same_name_only =
     (let cs = (case clusters of
                  None \<Rightarrow> fst (analyze E files None None same_name_only)
                | Some given \<Rightarrow>
                    if given = [] then fst (analyze E files None None same_name_only)
                    else given);
          r = propose_loop same_name_only cs
                ([(''lib/utils.py'', []), (''lib/io.py'', []), (''lib/ui.py'', [])], [])
      in \<lparr>suggested_tree = fst r, mapping = snd r,
           p_findings = map (\<lambda>m. (''proposal'', m)) (snd r)\<rparr>)"


section \<open>The extraction engine\<close>

fun find_function :: "node list \<Rightarrow> string \<Rightarrow> int \<Rightarrow> (int \<times> int) option" where
  \<comment> \<open>the first function definition of the walk with this name and \<open>lineno\<close>; its
      \<open>lineno\<close> and \<open>end_lineno\<close>\<close>
  "find_function [] nm ln = None"
| "find_function (FunctionDef n a body l e # ns) nm ln =
     (if n = nm \<and> l = ln then Some (l, e) else find_function ns nm ln)"
| "find_function (x # ns) nm ln = find_function ns nm ln"

definition get_function_source :: "env \<Rightarrow> fs \<Rightarrow> string \<Rightarrow> string \<Rightarrow> int \<Rightarrow> string option" where
  "get_function_source E files sp func_name func_line =
     (case files (resolved (repo_root E) sp) of
        None \<Rightarrow> None
      | Some text \<Rightarrow>
          (case parse E text of
             None \<Rightarrow> None
           | Some body \<Rightarrow>
               (case find_function (walk body) func_name func_line of
                  None \<Rightarrow> None
                | Some (l, e) \<Rightarrow> Some (join nl (py_slice (splitlines text) (l - 1) e)))))"

definition remove_function_from_source ::
  "env \<Rightarrow> string \<Rightarrow> string option \<Rightarrow> int option \<Rightarrow> string" where
  \<comment> \<open>a name or a line that is \<open>None\<close> equals no node's\<close>
  "remove_function_from_source E text func_name func_line =
     (case parse E text of
        None \<Rightarrow> text
      | Some body \<Rightarrow>
          (case (func_name, func_line) of
             (Some nm, Some ln) \<Rightarrow>
               (case find_function (walk body) nm ln of
                  None \<Rightarrow> text
                | Some (l, e) \<Rightarrow>
                    (let lines = splitlines text;
                         new_lines = py_slice lines 0 (l - 1)
                                       @ py_slice lines e (int (length lines))
                     in join_lines new_lines))
           | _ \<Rightarrow> text))"

definition is_import_line :: "string \<Rightarrow> bool" where
  \<comment> \<open>\<open>s = line.strip(); s.startswith("import ") or s.startswith("from ")\<close>\<close>
  "is_import_line ln = (prefix ''import '' (strip ln) \<or> prefix ''from '' (strip ln))"

fun import_scan :: "string \<Rightarrow> string list \<Rightarrow> nat \<Rightarrow> int \<Rightarrow> int option" where
  \<comment> \<open>the loop of \<open>_ensure_import\<close>: \<open>None\<close> when it returns early, else
      \<open>last_import_idx\<close>\<close>
  "import_scan imp [] i last_idx = Some last_idx"
| "import_scan imp (ln # lns) i last_idx =
     (if contains imp ln then None
      else import_scan imp lns (Suc i) (if is_import_line ln then int i else last_idx))"

definition ensure_import :: "string list \<Rightarrow> string \<Rightarrow> string list" where
  "ensure_import lines import_line =
     (case import_scan (strip import_line) lines 0 (- 1) of
        None \<Rightarrow> lines
      | Some last_idx \<Rightarrow>
          if last_idx \<ge> 0
          then take (nat (last_idx + 1)) lines @ [import_line] @ drop (nat (last_idx + 1)) lines
          else import_line # lines)"

record extraction =
  ex_function :: "string option"
  ex_script :: string
  ex_module :: string

definition py_str :: "string option \<Rightarrow> string" where
  \<comment> \<open>\<open>"%s" % v\<close> for a value that is a string or \<open>None\<close>\<close>
  "py_str v = (case v of None \<Rightarrow> ''None'' | Some s \<Rightarrow> s)"

fun extract_locs ::
  "env \<Rightarrow> fs \<Rightarrow> string \<Rightarrow> location list \<Rightarrow> patch list \<times> extraction list
     \<Rightarrow> error + patch list \<times> extraction list" where
  "extract_locs E files md [] st = Inr st"
| "extract_locs E files md (loc # locs) (sps, exs) =
     (case script loc of
        None \<Rightarrow> extract_locs E files md locs (sps, exs)
      | Some sp \<Rightarrow>
          if sp = [] then extract_locs E files md locs (sps, exs)
          else
            (case files (resolved (repo_root E) sp) of
               None \<Rightarrow> extract_locs E files md locs (sps, exs)
             | Some text \<Rightarrow>
                 (let new_text = remove_function_from_source E text (name loc) (line loc) in
                  if new_text = text then extract_locs E files md locs (sps, exs)
                  else
                    let mod_import = replace ''.py'' [] (replace ''/'' ''.'' md);
                        import_line = ''from '' @ mod_import @ '' import '' @ py_str (name loc);
                        new_lines = ensure_import (splitlines new_text) import_line
                    in (case create_edit_patch (repo_root E) sp text (join_lines new_lines)
                               ''high'' of
                          Inl err \<Rightarrow> Inl err
                        | Inr p \<Rightarrow>
                            extract_locs E files md locs
                              (sps @ [p],
                               exs @ [\<lparr>ex_function = name loc, ex_script = sp,
                                       ex_module = md\<rparr>])))))"

definition mapping_get :: "mapping_entry list \<Rightarrow> string \<Rightarrow> string" where
  \<comment> \<open>\<open>{m["function"]: m["suggested_module"] for m in ...}.get(f, "lib/utils.py")\<close>: the
      last entry of a name wins\<close>
  "mapping_get m f =
     (case find (\<lambda>e. m_function e = f) (rev m) of
        None \<Rightarrow> ''lib/utils.py''
      | Some e \<Rightarrow> suggested_module e)"

type_synonym extract_state =
  "patch list \<times> extraction list \<times> message list \<times> (string \<times> string list) list"

fun extract_clusters ::
  "env \<Rightarrow> fs \<Rightarrow> int list option \<Rightarrow> mapping_entry list \<Rightarrow> nat \<Rightarrow> cluster list
     \<Rightarrow> extract_state \<Rightarrow> error + extract_state" where
  "extract_clusters E files cluster_indices m idx [] st = Inr st"
| "extract_clusters E files cluster_indices m idx (c # cs) (sps, exs, errs, libs) =
     (if (case cluster_indices of None \<Rightarrow> False | Some ci \<Rightarrow> int idx \<notin> set ci)
      then extract_clusters E files cluster_indices m (Suc idx) cs (sps, exs, errs, libs)
      else
        let locs = locations c in
        if length locs < 2
        then extract_clusters E files cluster_indices m (Suc idx) cs (sps, exs, errs, libs)
        else
          let names = remdups (map name locs) in
          if length names > 1
          then (if None \<in> set names then Inl TypeError
                else extract_clusters E files cluster_indices m (Suc idx) cs
                       (sps, exs, errs @ [MixedNames idx (sort (map the names))], libs))
          else
            (case locs of
               [] \<Rightarrow> extract_clusters E files cluster_indices m (Suc idx) cs
                       (sps, exs, errs, libs)
             | first # _ \<Rightarrow>
                 (let func_name = (case name first of None \<Rightarrow> ''?'' | Some n \<Rightarrow> n) in
                  case (script first, line first) of
                    (Some script_path, Some func_line) \<Rightarrow>
                      if script_path = [] \<or> func_line = 0
                      then extract_clusters E files cluster_indices m (Suc idx) cs
                             (sps, exs, errs @ [MissingScriptLine idx], libs)
                      else
                        (case get_function_source E files script_path func_name func_line of
                           None \<Rightarrow>
                             extract_clusters E files cluster_indices m (Suc idx) cs
                               (sps, exs,
                                errs @ [CouldNotExtract idx func_name script_path], libs)
                         | Some source \<Rightarrow>
                             if source = []
                             then extract_clusters E files cluster_indices m (Suc idx) cs
                                    (sps, exs,
                                     errs @ [CouldNotExtract idx func_name script_path], libs)
                             else
                               (let md = mapping_get m func_name in
                                case extract_locs E files md locs (sps, exs) of
                                  Inl err \<Rightarrow> Inl err
                                | Inr (sps', exs') \<Rightarrow>
                                    extract_clusters E files cluster_indices m (Suc idx) cs
                                      (sps', exs', errs,
                                       setdefault_append md source libs)))
                  | _ \<Rightarrow>
                      extract_clusters E files cluster_indices m (Suc idx) cs
                        (sps, exs, errs @ [MissingScriptLine idx], libs))))"

fun lib_patches_loop ::
  "env \<Rightarrow> fs \<Rightarrow> (string \<times> string list) list \<Rightarrow> patch list \<Rightarrow> error + patch list" where
  "lib_patches_loop E files [] acc = Inr acc"
| "lib_patches_loop E files ((md, func_sources) # rest) acc =
     (let cont = join (nl @ nl) (filter (\<lambda>s. strip s \<noteq> []) func_sources) in
      if cont = [] then lib_patches_loop E files rest acc
      else
        (case files (resolved (repo_root E) md) of
           Some old \<Rightarrow>
             (case create_edit_patch (repo_root E) md old (rstrip old @ nl @ nl @ cont)
                     ''medium'' of
                Inl err \<Rightarrow> Inl err
              | Inr p \<Rightarrow> lib_patches_loop E files rest (acc @ [p]))
         | None \<Rightarrow>
             (case create_add_file_patch (repo_root E) md cont ''medium'' of
                Inl err \<Rightarrow> Inl err
              | Inr p \<Rightarrow> lib_patches_loop E files rest (acc @ [p]))))"

record extract_result =
  patches :: "patch list"
  extracted :: "extraction list"
  errors :: "message list"

definition extract_engine ::
  "env \<Rightarrow> fs \<Rightarrow> cluster list option \<Rightarrow> int list option \<Rightarrow> string \<Rightarrow> bool
     \<Rightarrow> error + fs \<times> extract_result" where
  \<comment> \<open>\<open>ExtractToLibEngine.extract\<close>: the file system after the call and the returned dict,
      or the exception raised\<close>
  "extract_engine E files clusters cluster_indices mode same_name_only =
     (let cs = (case clusters of
                  None \<Rightarrow> fst (analyze E files None None same_name_only)
                | Some given \<Rightarrow> given);
          m = mapping (propose E files (Some cs) False)
      in case extract_clusters E files cluster_indices m 0 cs ([], [], [], []) of
           Inl err \<Rightarrow> Inl err
         | Inr (script_patches, exs, errs, lib_contents) \<Rightarrow>
             (case lib_patches_loop E files lib_contents [] of
                Inl err \<Rightarrow> Inl err
              | Inr lib_patches \<Rightarrow>
                  (let ps = lib_patches @ script_patches in
                   if mode = ''write''
                   then (case apply_patches (repo_root E) ps ''write'' files of
                           (files', applied, apply_errors) \<Rightarrow>
                             Inr (files', \<lparr>patches = ps, extracted = exs,
                                           errors = errs @ apply_errors\<rparr>))
                   else Inr (files, \<lparr>patches = ps, extracted = exs, errors = errs\<rparr>))))"

section \<open>The entry points and their defaults\<close>

text \<open>
  The tools of \<open>foundry_mcp/server.py\<close> that are modelled. An argument the caller leaves
  out is \<open>None\<close> and takes the default of the signature.
\<close>

definition apply_patch ::
  "path \<Rightarrow> patch list option \<Rightarrow> string option \<Rightarrow> fs \<Rightarrow> fs \<times> string list \<times> message list" where
  "apply_patch root patches_arg mode_arg files =
     apply_patches root (case patches_arg of None \<Rightarrow> [] | Some ps \<Rightarrow> ps)
       (case mode_arg of None \<Rightarrow> ''dry_run'' | Some m \<Rightarrow> m) files"

definition extract_to_lib ::
  "env \<Rightarrow> fs \<Rightarrow> cluster list option \<Rightarrow> int list option \<Rightarrow> string option \<Rightarrow> bool option
     \<Rightarrow> error + fs \<times> extract_result" where
  "extract_to_lib E files clusters cluster_indices mode_arg same_arg =
     extract_engine E files clusters cluster_indices
       (case mode_arg of None \<Rightarrow> ''dry_run'' | Some m \<Rightarrow> m)
       (case same_arg of None \<Rightarrow> True | Some b \<Rightarrow> b)"

record config_result =
  cfg_path :: string
  cfg_mode :: string
  template_preview :: "string option"

definition create_extension_config ::
  "path \<Rightarrow> string \<Rightarrow> string \<Rightarrow> string option \<Rightarrow> fs \<Rightarrow> fs \<times> config_result" where
  \<comment> \<open>\<open>cwd\<close> is the working directory \<open>Path(config_path).resolve()\<close> starts from,
      \<open>template\<close> the text of the template file; the constant \<open>instructions\<close> entry of the
      result is left out\<close>
  "create_extension_config cwd template config_path mode_arg files =
     (let mode = (case mode_arg of None \<Rightarrow> ''write'' | Some m \<Rightarrow> m);
          p = resolved cwd config_path
      in (if mode = ''write'' then files(p \<mapsto> template) else files,
          \<lparr>cfg_path = path_str p, cfg_mode = mode, template_preview = None\<rparr>))"

definition create_extension_config_tool ::
  "path \<Rightarrow> string \<Rightarrow> string option \<Rightarrow> string option \<Rightarrow> fs \<Rightarrow> fs \<times> config_result" where
  "create_extension_config_tool cwd template config_path mode_arg files =
     (let mode = (case mode_arg of None \<Rightarrow> ''write'' | Some m \<Rightarrow> m);
          p = (case config_path of
                 None \<Rightarrow> ''extension_config.yaml''
               | Some c \<Rightarrow> if c = [] then ''extension_config.yaml'' else c);
          r = create_extension_config cwd template p (Some mode) files
      in (fst r,
          if mode = ''dry_run''
          then (snd r)\<lparr>template_preview := Some (take 500 template @ ''...'')\<rparr>
          else snd r))"


text \<open>
  \<open>PatchEngine.apply_patches\<close> and \<open>ExtractToLibEngine.extract\<close> as they are called, with
  the arguments the caller may leave out.
\<close>

definition PatchEngine_apply_patches ::
  "path \<Rightarrow> patch list \<Rightarrow> string option \<Rightarrow> fs \<Rightarrow> fs \<times> string list \<times> message list" where
  "PatchEngine_apply_patches root ps mode_arg files =
     apply_patches root ps (case mode_arg of None \<Rightarrow> ''dry_run'' | Some m \<Rightarrow> m) files"

definition ExtractToLibEngine_extract ::
  "env \<Rightarrow> fs \<Rightarrow> cluster list option \<Rightarrow> int list option \<Rightarrow> string option \<Rightarrow> bool option
     \<Rightarrow> error + fs \<times> extract_result" where
  "ExtractToLibEngine_extract E files clusters cluster_indices mode_arg same_arg =
     extract_engine E files clusters cluster_indices
       (case mode_arg of None \<Rightarrow> ''dry_run'' | Some m \<Rightarrow> m)
       (case same_arg of None \<Rightarrow> True | Some b \<Rightarrow> b)"


subsection \<open>The \<open>bundle.yaml\<close> generator\<close>

text \<open>
  \<open>generate_bundle_yaml\<close> of \<open>server.py\<close> with \<open>BundleYamlAnalyzer\<close>. The inventory of
  \<open>RepoIndexer.scan\<close> is given as the list of its bundles, and \<open>script_title\<close> is what
  \<open>_extract_title_from_script\<close> reads from the entry script of a bundle; both only read
  the file system.
\<close>

record bundle_info =
  bundle_path :: string
  bundle_name :: string
  bundle_yaml :: bool

record inferred =
  inf_title :: string
  inf_tooltip :: string
  inf_confidence :: string

abbreviation dquote :: string where
  "dquote \<equiv> [CHR 0x22]"

definition is_ascii_lower :: "char \<Rightarrow> bool" where
  "is_ascii_lower c = (let n = (of_char c :: nat) in 97 \<le> n \<and> n \<le> 122)"

definition is_ascii_upper :: "char \<Rightarrow> bool" where
  "is_ascii_upper c = (let n = (of_char c :: nat) in 65 \<le> n \<and> n \<le> 90)"

fun camel_spaced :: "string \<Rightarrow> string" where
  \<comment> \<open>\<open>re.sub(r"([a-z])([A-Z])", r"\1 \2", base)\<close>\<close>
  "camel_spaced (a # b # cs) =
     (if is_ascii_lower a \<and> is_ascii_upper b then a # CHR '' '' # b # camel_spaced cs
      else a # camel_spaced (b # cs))"
| "camel_spaced cs = cs"

definition infer_tooltip_from_folder :: "string \<Rightarrow> string" where
  "infer_tooltip_from_folder name_of_bundle =
     (let base = (if CHR ''.'' \<in> set name_of_bundle
                  then takeWhile (\<lambda>c. c \<noteq> CHR ''.'') name_of_bundle
                  else name_of_bundle);
          spaced = camel_spaced base
      in if strip spaced \<noteq> [] then strip spaced else base)"

definition infer_bundle_yaml ::
  "(fs \<Rightarrow> string \<Rightarrow> string option) \<Rightarrow> fs \<Rightarrow> string \<Rightarrow> string \<Rightarrow> inferred" where
  "infer_bundle_yaml script_title files path_of_bundle name_of_bundle =
     (let title = script_title files path_of_bundle;
          tooltip = infer_tooltip_from_folder name_of_bundle
      in if title \<noteq> None \<and> title \<noteq> Some []
         then \<lparr>inf_title = the title,
               inf_tooltip = (if tooltip \<noteq> [] then tooltip else the title),
               inf_confidence = ''high''\<rparr>
         else \<lparr>inf_title = (if tooltip \<noteq> [] then tooltip else name_of_bundle),
               inf_tooltip = (if tooltip \<noteq> [] then tooltip else name_of_bundle),
               inf_confidence = ''low''\<rparr>)"

definition generate_yaml_content :: "inferred \<Rightarrow> string" where
  "generate_yaml_content info =
     (let title = inf_title info;
          tooltip = inf_tooltip info
      in ''title: '' @ dquote @ replace dquote ([CHR 0x5C] @ dquote) title @ dquote @ nl
         @ ''tooltip: >-'' @ nl
         @ ''  '' @ replace dquote ([CHR 0x5C] @ dquote)
                     (if tooltip \<noteq> [] then tooltip else title) @ nl
         @ ''help_url: '' @ dquote @ dquote @ nl
         @ ''#context: [revit]'' @ nl)"

definition child_str :: "string \<Rightarrow> string \<Rightarrow> string" where
  \<comment> \<open>\<open>str(Path(p) / child)\<close> for a plain file name \<open>child\<close>\<close>
  "child_str p child =
     (if is_absolute p then anchor p else []) @ join ''/'' (path_parts p @ [child])"

fun bundle_loop ::
  "path \<Rightarrow> (fs \<Rightarrow> string \<Rightarrow> string option) \<Rightarrow> fs \<Rightarrow> string list option \<Rightarrow> bundle_info list
     \<Rightarrow> patch list \<times> (string \<times> inferred) list
     \<Rightarrow> error + patch list \<times> (string \<times> inferred) list" where
  "bundle_loop root script_title files bundle_paths [] st = Inr st"
| "bundle_loop root script_title files bundle_paths (b # bs) (ps, findings) =
     (if (case bundle_paths of
            None \<Rightarrow> False
          | Some given \<Rightarrow> given \<noteq> [] \<and> bundle_path b \<notin> set given)
      then bundle_loop root script_title files bundle_paths bs (ps, findings)
      else if bundle_yaml b
      then bundle_loop root script_title files bundle_paths bs (ps, findings)
      else
        (let info = infer_bundle_yaml script_title files (bundle_path b) (bundle_name b);
             cont = generate_yaml_content info;
             yaml_path = child_str (bundle_path b) ''bundle.yaml''
         in case create_add_file_patch root yaml_path cont ''low'' of
              Inl err \<Rightarrow> Inl err
            | Inr p \<Rightarrow>
                bundle_loop root script_title files bundle_paths bs
                  (ps @ [p], findings @ [(bundle_path b, info)])))"

definition generate_bundle_yaml ::
  "path \<Rightarrow> bundle_info list \<Rightarrow> (fs \<Rightarrow> string \<Rightarrow> string option) \<Rightarrow> string list option
     \<Rightarrow> string option \<Rightarrow> fs \<Rightarrow> error + fs \<times> patch list \<times> (string \<times> inferred) list" where
  \<comment> \<open>the file system after the call with the \<open>patches\<close> and \<open>findings\<close> of the result,
      or the exception of \<open>create_add_file_patch\<close>\<close>
  "generate_bundle_yaml root bundles script_title bundle_paths mode_arg files =
     (let mode = (case mode_arg of None \<Rightarrow> ''dry_run'' | Some m \<Rightarrow> m)
      in case bundle_loop root script_title files bundle_paths bundles ([], []) of
           Inl err \<Rightarrow> Inl err
         | Inr (ps, findings) \<Rightarrow>
             Inr (if mode = ''write'' then fst (apply_patches root ps ''write'' files)
                  else files,
                  ps, findings))"


subsection \<open>The import audit\<close>

text \<open>
  \<open>import_audit_with_core\<close> of \<open>server.py\<close>. \<open>ImportAuditAnalyzer.audit\<close> parses the
  scripts and \<open>CoreIndexer.index\<close> asks git for the revision of the core clone; neither
  writes a file, and they are given as functions of the file system. The tool takes a
  \<open>mode\<close> and never reads it.
\<close>

record audit_finding =
  af_type :: string
  af_line :: int
  af_name :: string
  af_confidence :: string
  af_script :: string

record audit_env =
  configured_core_path :: "string option"
  inventory_py_files :: "string list"
  audit :: "fs \<Rightarrow> string option \<Rightarrow> string list \<Rightarrow> audit_finding list"
  git_sha :: "fs \<Rightarrow> string \<Rightarrow> string option"

record audit_result =
  ar_findings :: "audit_finding list"
  ar_patches :: "patch list"
  ar_core_version :: "string option"

definition import_audit_with_core ::
  "audit_env \<Rightarrow> string list option \<Rightarrow> string option \<Rightarrow> string list option \<Rightarrow> string option
     \<Rightarrow> fs \<Rightarrow> fs \<times> audit_result" where
  "import_audit_with_core A script_paths core_root allowlist mode_arg files =
     (let core = (if core_root \<noteq> None \<and> core_root \<noteq> Some [] then core_root
                  else configured_core_path A);
          sps = (if script_paths = None \<or> script_paths = Some [] then inventory_py_files A
                 else the script_paths);
          findings = audit A files core sps;
          kept = (case allowlist of
                    None \<Rightarrow> findings
                  | Some allowed \<Rightarrow>
                      if allowed = [] then findings
                      else filter (\<lambda>f. af_name f \<notin> set allowed) findings)
      in (files,
          \<lparr>ar_findings = kept, ar_patches = [],
           ar_core_version = (case core of
                                None \<Rightarrow> None
                              | Some c \<Rightarrow> if c = [] then None else git_sha A files c)\<rparr>))"


subsection \<open>The extension creator\<close>

text \<open>
  \<open>engine/extension_creator.py\<close>. The templates of the package are given by \<open>templates\<close>
  (\<open>_load_template\<close>), the parsers of the configuration file and of the \<open>tabs\<close> argument
  by \<open>load_extension_config\<close> and \<open>json_loads\<close>, which return the text of the exception
  when they fail. A dictionary entry that may be absent is an \<open>option\<close>; a list of buttons
  or of stack items is given as names or as dictionaries, and a list mixing the two is
  not represented. A file is written at the resolved path of its folder.
\<close>

record entry =
  entry_name :: "string option"
  entry_type :: "string option"
  entry_doc :: "string option"

datatype entries = Names "string list" | Dicts "entry list"

record item =
  item_name :: "string option"
  item_type :: "string option"
  item_buttons :: entries
  item_items :: entries

record panel =
  panel_name :: "string option"
  panel_items :: "item list"

record tab =
  tab_name :: "string option"
  tab_panels :: "panel list"

record ext_config =
  conf_extension_name :: string
  conf_output_path :: string
  conf_tabs :: "tab list"
  conf_author :: string
  conf_description :: string

record creator_env =
  work_dir :: path
  templates :: "string \<Rightarrow> string"
  load_extension_config :: "fs \<Rightarrow> string \<Rightarrow> string + ext_config"
  json_loads :: "string \<Rightarrow> string + tab list"

definition dict_get :: "'a option \<Rightarrow> 'a \<Rightarrow> 'a" where
  \<comment> \<open>\<open>d.get(key, default)\<close>\<close>
  "dict_get v d = (case v of None \<Rightarrow> d | Some x \<Rightarrow> x)"

definition render :: "string \<Rightarrow> (string \<times> string) list \<Rightarrow> string" where
  "render template kwargs =
     fold (\<lambda>(k, v) t. replace (''{{'' @ k @ ''}}'') v t) kwargs template"

definition create_pushbutton ::
  "(string \<Rightarrow> string) \<Rightarrow> path \<Rightarrow> string \<Rightarrow> string \<Rightarrow> string \<Rightarrow> string \<Rightarrow> bool \<Rightarrow> fs
     \<Rightarrow> fs \<times> string list" where
  \<comment> \<open>\<open>_create_pushbutton\<close>: the file system after the call and the created paths\<close>
  "create_pushbutton T root rel_path button author doc include_help files =
     (let folder = resolved root rel_path;
          script_content = render (T ''script.py'')
             [(''title'', button), (''author'', if author \<noteq> [] then author else ''pyRevit''),
              (''doc'', if doc \<noteq> [] then doc else button)];
          files_script = files(folder @ [''script.py''] \<mapsto> script_content);
          yaml_content = render (T ''bundle_pushbutton.yaml'')
             [(''title'', button), (''tooltip'', if doc \<noteq> [] then doc else button)];
          files_yaml = files_script(folder @ [''bundle.yaml''] \<mapsto> yaml_content);
          created = [rel_path @ ''/script.py'', rel_path @ ''/bundle.yaml'']
      in if include_help
         then (files_yaml(folder @ [''help.html''] \<mapsto>
                 render (T ''help.html'')
                   [(''title'', button), (''doc'', if doc \<noteq> [] then doc else button)]),
               created @ [rel_path @ ''/help.html''])
         else (files_yaml, created))"

definition create_pulldown ::
  "(string \<Rightarrow> string) \<Rightarrow> path \<Rightarrow> string \<Rightarrow> entry list \<Rightarrow> string \<Rightarrow> bool \<Rightarrow> fs
     \<Rightarrow> fs \<times> string list" where
  "create_pulldown T root rel_path buttons author include_help files =
     (let folder = resolved root rel_path;
          layout_lines = map (\<lambda>btn. ''  - '' @ dict_get (entry_name btn) ''Button'') buttons;
          yaml_content = render (T ''bundle_pulldown.yaml'') [(''layout'', join nl layout_lines)];
          files_yaml = files(folder @ [''bundle.yaml''] \<mapsto> yaml_content)
      in fold (\<lambda>btn (fl, created).
                 let btn_name = dict_get (entry_name btn) ''Button'';
                     r = create_pushbutton T root (rel_path @ ''/'' @ btn_name @ ''.pushbutton'')
                           btn_name author (dict_get (entry_doc btn) btn_name) include_help fl
                 in (fst r, created @ snd r))
           buttons (files_yaml, [rel_path @ ''/bundle.yaml'']))"

definition create_stack ::
  "(string \<Rightarrow> string) \<Rightarrow> path \<Rightarrow> string \<Rightarrow> entry list \<Rightarrow> string \<Rightarrow> bool \<Rightarrow> fs
     \<Rightarrow> fs \<times> string list" where
  "create_stack T root rel_path stack_items author include_help files =
     (let folder = resolved root rel_path;
          normalized = map (\<lambda>it. \<lparr>entry_name = Some (dict_get (entry_name it) ''Item''),
                                  entry_type = Some (dict_get (entry_type it) ''pushbutton''),
                                  entry_doc = Some (dict_get (entry_doc it) [])\<rparr>) stack_items;
          layout_lines = map (\<lambda>it. ''  - '' @ the (entry_name it)) normalized;
          yaml_content = render (T ''bundle_stack.yaml'') [(''layout'', join nl layout_lines)];
          files_yaml = files(folder @ [''bundle.yaml''] \<mapsto> yaml_content)
      in fold (\<lambda>it (fl, created).
                 if entry_type it \<noteq> Some ''pushbutton'' then (fl, created)
                 else
                   let btn_name = the (entry_name it);
                       r = create_pushbutton T root
                             (rel_path @ ''/'' @ btn_name @ ''.pushbutton'') btn_name author
                             (if entry_doc it \<noteq> None \<and> entry_doc it \<noteq> Some []
                              then the (entry_doc it) else btn_name)
                             include_help fl
                   in (fst r, created @ snd r))
           normalized (files_yaml, [rel_path @ ''/bundle.yaml'']))"

definition button_dicts :: "entries \<Rightarrow> entry list" where
  \<comment> \<open>\<open>[{"name": b} for b in buttons]\<close> when the buttons are given as names\<close>
  "button_dicts bs =
     (case bs of
        Names ns \<Rightarrow> map (\<lambda>b. \<lparr>entry_name = Some b, entry_type = None, entry_doc = None\<rparr>) ns
      | Dicts ds \<Rightarrow> ds)"

definition stack_dicts :: "entries \<Rightarrow> entry list" where
  \<comment> \<open>\<open>[{"name": b, "type": "pushbutton"} for b in stack_items]\<close>\<close>
  "stack_dicts bs =
     (case bs of
        Names ns \<Rightarrow> map (\<lambda>b. \<lparr>entry_name = Some b, entry_type = Some ''pushbutton'',
                                entry_doc = None\<rparr>) ns
      | Dicts ds \<Rightarrow> ds)"

definition preview_buttons :: "string \<Rightarrow> bool \<Rightarrow> entry list \<Rightarrow> string list" where
  \<comment> \<open>the paths a dry run lists for the buttons of a pulldown or a stack\<close>
  "preview_buttons rel include_help buttons =
     concat (map (\<lambda>btn.
        let bn = dict_get (entry_name btn) ''Button''
        in [rel @ ''/'' @ bn @ ''.pushbutton/script.py'',
            rel @ ''/'' @ bn @ ''.pushbutton/bundle.yaml'']
           @ (if include_help then [rel @ ''/'' @ bn @ ''.pushbutton/help.html''] else []))
       buttons)"

definition process_item ::
  "(string \<Rightarrow> string) \<Rightarrow> path \<Rightarrow> bool \<Rightarrow> bool \<Rightarrow> string \<Rightarrow> item \<Rightarrow> string \<Rightarrow> fs \<times> string list
     \<Rightarrow> fs \<times> string list" where
  "process_item T ext_folder do_write include_help parent_rel it author_val st =
     (let files = fst st;
          created = snd st;
          nm = dict_get (item_name it) ''Item'';
          itype = dict_get (item_type it) ''pushbutton''
      in if itype = ''pushbutton''
         then
           (let rel = parent_rel @ ''/'' @ nm @ ''.pushbutton''
            in if do_write
               then (let r = create_pushbutton T ext_folder rel nm author_val [] include_help
                               files
                     in (fst r, created @ snd r))
               else (files,
                     created @ [rel @ ''/script.py'', rel @ ''/bundle.yaml'']
                       @ (if include_help then [rel @ ''/help.html''] else [])))
         else if itype = ''pulldown''
         then
           (let rel = parent_rel @ ''/'' @ nm @ ''.pulldown'';
                buttons = button_dicts (item_buttons it)
            in if do_write
               then (let r = create_pulldown T ext_folder rel buttons author_val include_help
                               files
                     in (fst r, created @ snd r))
               else (files,
                     created @ [rel @ ''/bundle.yaml'']
                       @ preview_buttons rel include_help buttons))
         else if itype = ''stack''
         then
           (let rel = parent_rel @ ''/'' @ nm @ ''.stack'';
                stack_items = stack_dicts (item_items it)
            in if do_write
               then (let r = create_stack T ext_folder rel stack_items author_val include_help
                               files
                     in (fst r, created @ snd r))
               else (files,
                     created @ [rel @ ''/bundle.yaml'']
                       @ preview_buttons rel include_help stack_items))
         else (files, created))"

definition process_panel ::
  "(string \<Rightarrow> string) \<Rightarrow> path \<Rightarrow> bool \<Rightarrow> bool \<Rightarrow> string \<Rightarrow> string \<Rightarrow> panel
     \<Rightarrow> fs \<times> string list \<Rightarrow> fs \<times> string list" where
  \<comment> \<open>the body of the loop over the panels of a tab\<close>
  "process_panel T ext_folder do_write include_help author tab_rel pn st =
     (let files = fst st;
          created = snd st;
          panel_rel = tab_rel @ ''/'' @ dict_get (panel_name pn) ''Panel'' @ ''.panel'';
          layout_lines =
            map (\<lambda>it. ''  - '' @ dict_get (item_name it) ''Item'')
              (filter (\<lambda>it. dict_get (item_type it) ''pushbutton''
                              \<in> set [''pushbutton'', ''pulldown'', ''stack''])
                 (panel_items pn));
          with_layout =
            (if layout_lines \<noteq> []
             then (if do_write
                   then files(resolved ext_folder panel_rel @ [''bundle.yaml''] \<mapsto>
                          render (T ''bundle_panel.yaml'') [(''layout'', join nl layout_lines)])
                   else files,
                   created @ [panel_rel @ ''/bundle.yaml''])
             else (files, created))
      in fold (\<lambda>it. process_item T ext_folder do_write include_help panel_rel it author)
           (panel_items pn) with_layout)"

definition process_tab ::
  "(string \<Rightarrow> string) \<Rightarrow> path \<Rightarrow> bool \<Rightarrow> bool \<Rightarrow> string \<Rightarrow> tab
     \<Rightarrow> fs \<times> string list \<Rightarrow> fs \<times> string list" where
  \<comment> \<open>the body of the loop over the tabs\<close>
  "process_tab T ext_folder do_write include_help author tb st =
     fold (process_panel T ext_folder do_write include_help author
             (dict_get (tab_name tb) ''Tab'' @ ''.tab''))
       (tab_panels tb) st"

datatype extension_result =
    ConfigNotCustomized string string
  | CreateFailed "string list" string
  | ExtensionCreated string "string list" "string list" string

definition build_extension ::
  "creator_env \<Rightarrow> string \<Rightarrow> string \<Rightarrow> tab list \<Rightarrow> string \<Rightarrow> string \<Rightarrow> bool \<Rightarrow> string \<Rightarrow> fs
     \<Rightarrow> fs \<times> extension_result" where
  \<comment> \<open>\<open>create_extension\<close> from \<open>root = Path(output_path).resolve()\<close> on; the result
      \<open>ExtensionCreated\<close> holds \<open>extension_path\<close>, \<open>created\<close>, \<open>errors\<close> and \<open>mode\<close>\<close>
  "build_extension C output_path extension_name tabs author description include_help mode
       files =
     (let root = resolved (work_dir C) output_path;
          ext_folder = resolved root (extension_name @ ''.extension'');
          do_write = (mode = ''write'');
          st = fold (process_tab (templates C) ext_folder do_write include_help author) tabs
                 (files, []);
          files_json =
            (if do_write
             then (fst st)(ext_folder @ [''extensions.json''] \<mapsto>
                    render (templates C ''extensions.json'')
                      [(''name'', extension_name),
                       (''description'',
                        if description \<noteq> [] then description else extension_name),
                       (''author'', if author \<noteq> [] then author else ''pyRevit'')])
             else fst st)
      in (files_json,
          ExtensionCreated (joined_str root (extension_name @ ''.extension''))
            (snd st @ [''extensions.json'']) [] mode))"

definition create_extension_engine ::
  "creator_env \<Rightarrow> string \<Rightarrow> string \<Rightarrow> tab list \<Rightarrow> string \<Rightarrow> string \<Rightarrow> bool \<Rightarrow> string option
     \<Rightarrow> string option \<Rightarrow> fs \<Rightarrow> fs \<times> extension_result" where
  \<comment> \<open>\<open>create_extension\<close> of the engine; \<open>ConfigNotCustomized\<close> holds \<open>mode\<close> and
      \<open>config_path\<close>, \<open>CreateFailed\<close> holds \<open>errors\<close> and \<open>mode\<close>\<close>
  "create_extension_engine C output_path extension_name tabs author description include_help
       mode_arg config_path files =
     (let mode = (case mode_arg of None \<Rightarrow> ''dry_run'' | Some m \<Rightarrow> m)
      in if config_path \<noteq> None \<and> config_path \<noteq> Some []
         then
           (case load_extension_config C files (the config_path) of
              Inl msg \<Rightarrow> (files, CreateFailed [msg] mode)
            | Inr cfg \<Rightarrow>
                (let extension_name' =
                       (if conf_extension_name cfg \<noteq> [] then conf_extension_name cfg
                        else extension_name);
                     output_path' =
                       (if conf_output_path cfg \<noteq> [] then conf_output_path cfg
                        else if output_path \<noteq> [] then output_path else ''.'');
                     tabs' = (if conf_tabs cfg \<noteq> [] then conf_tabs cfg else tabs);
                     author' = (if conf_author cfg \<noteq> [] then conf_author cfg else author);
                     description' =
                       (if conf_description cfg \<noteq> [] then conf_description cfg
                        else description);
                     out_str = strip output_path'
                 in if out_str = [] \<or> contains ''path/to/output'' (lower out_str)
                    then (files, ConfigNotCustomized mode (the config_path))
                    else build_extension C output_path' extension_name' tabs' author'
                           description' include_help mode files))
         else build_extension C output_path extension_name tabs author description
                include_help mode files)"

definition create_extension ::
  "creator_env \<Rightarrow> string \<Rightarrow> string \<Rightarrow> (string + tab list) option \<Rightarrow> string \<Rightarrow> string \<Rightarrow> string
     \<Rightarrow> bool \<Rightarrow> string option \<Rightarrow> fs \<Rightarrow> fs \<times> extension_result" where
  \<comment> \<open>the tool of \<open>server.py\<close>; \<open>tabs\<close> is a JSON text (\<open>Inl\<close>), a list (\<open>Inr\<close>) or left out\<close>
  "create_extension C output_path extension_name tabs config_path author description
       include_help mode_arg files =
     (let mode = (case mode_arg of None \<Rightarrow> ''dry_run'' | Some m \<Rightarrow> m)
      in if config_path \<noteq> []
         then create_extension_engine C ''.'' [] [] author description include_help
                (Some mode) (Some config_path) files
         else
           (let out = path_str (resolved (work_dir C)
                                  (if output_path \<noteq> [] then output_path else ''.''))
            in case tabs of
                 Some (Inl json_text) \<Rightarrow>
                   (case json_loads C json_text of
                      Inl msg \<Rightarrow> (files, CreateFailed [''tabs must be valid JSON: '' @ msg] mode)
                    | Inr parsed \<Rightarrow>
                        create_extension_engine C out extension_name parsed author
                          description include_help (Some mode) None files)
               | Some (Inr given) \<Rightarrow>
                   create_extension_engine C out extension_name given author description
                     include_help (Some mode) None files
               | None \<Rightarrow>
                   create_extension_engine C out extension_name [] author description
                     include_help (Some mode) None files))"

fun first_blank :: "bool \<Rightarrow> nat \<Rightarrow> string list \<Rightarrow> nat option \<times> bool" where
  \<comment> \<open>the first loop of \<open>_append_to_layout\<close>: the index of the first blank line inside
      the layout list, if the loop reaches one, and \<open>in_layout\<close> when the loop ends\<close>
  "first_blank in_layout i [] = (None, in_layout)"
| "first_blank in_layout i (l # ls) =
     (if prefix ''layout:'' (strip l) then first_blank True (Suc i) ls
      else if in_layout
      then (if strip l \<noteq> [] \<and> \<not> prefix ''-'' (strip l) then (None, in_layout)
            else if prefix ''-'' (strip l) then first_blank in_layout (Suc i) ls
            else (Some i, in_layout))
      else first_blank in_layout (Suc i) ls)"

definition last_dash :: "string list \<Rightarrow> nat option" where
  \<comment> \<open>the second loop: the index of the last line that starts a list entry\<close>
  "last_dash lines =
     (case filter (\<lambda>i. prefix ''-'' (strip (lines ! i))) (rev [0 ..< length lines]) of
        [] \<Rightarrow> None
      | i # _ \<Rightarrow> Some i)"

definition insert_line :: "string list \<Rightarrow> nat \<Rightarrow> string \<Rightarrow> string" where
  \<comment> \<open>\<open>lines.insert(i, line)\<close> and the text written back\<close>
  "insert_line lines i l = join nl (take i lines @ [l] @ drop i lines) @ nl"

definition append_to_layout :: "fs \<Rightarrow> path \<Rightarrow> string \<Rightarrow> fs \<times> bool" where
  "append_to_layout files yaml_path it =
     (case files yaml_path of
        None \<Rightarrow> (files, False)
      | Some old_text \<Rightarrow>
          if \<not> contains ''layout:'' old_text then (files, False)
          else
            (let new_line = ''  - '' @ it @ nl;
                 lines = splitlines old_text
             in if contains (strip new_line) old_text then (files, False)
                else
                  (case first_blank False 0 lines of
                     (Some i, in_layout) \<Rightarrow>
                       (files(yaml_path \<mapsto> insert_line lines i (rstrip new_line)), True)
                   | (None, in_layout) \<Rightarrow>
                       if in_layout
                       then (case last_dash lines of
                               Some i \<Rightarrow>
                                 (files(yaml_path \<mapsto>
                                    insert_line lines (Suc i) (rstrip new_line)), True)
                             | None \<Rightarrow> (files, False))
                       else (files, False))))"

datatype button_result =
    ButtonFailed "string list" string
  | ButtonAdded string "string list" "string list" string bool

definition add_button_engine ::
  "creator_env \<Rightarrow> string \<Rightarrow> string \<Rightarrow> string \<Rightarrow> string \<Rightarrow> string \<Rightarrow> bool \<Rightarrow> bool
     \<Rightarrow> string option \<Rightarrow> fs \<Rightarrow> fs \<times> button_result" where
  \<comment> \<open>\<open>add_button\<close> of the engine; \<open>ButtonAdded\<close> holds \<open>button_path\<close>, \<open>created\<close>,
      \<open>errors\<close>, \<open>mode\<close> and \<open>layout_updated\<close>\<close>
  "add_button_engine C root_arg target button author doc include_help update_layout mode_arg
       files =
     (let mode = (case mode_arg of None \<Rightarrow> ''dry_run'' | Some m \<Rightarrow> m);
          root = resolved (work_dir C) root_arg;
          rel_path = target @ ''/'' @ button @ ''.pushbutton''
      in if mode = ''write''
         then
           (let r = create_pushbutton (templates C) root rel_path button author
                      (if doc \<noteq> [] then doc else button) include_help files;
                l = (if update_layout
                     then append_to_layout (fst r) (resolved root target @ [''bundle.yaml''])
                            button
                     else (fst r, False))
            in (fst l, ButtonAdded (joined_str root rel_path) (snd r) [] mode (snd l)))
         else (files,
               ButtonAdded (joined_str root rel_path)
                 ([rel_path @ ''/script.py'', rel_path @ ''/bundle.yaml'']
                    @ (if include_help then [rel_path @ ''/help.html''] else []))
                 [] mode False))"

definition add_button ::
  "creator_env \<Rightarrow> string \<Rightarrow> string \<Rightarrow> string \<Rightarrow> string \<Rightarrow> string \<Rightarrow> bool \<Rightarrow> bool
     \<Rightarrow> string option \<Rightarrow> fs \<Rightarrow> fs \<times> button_result" where
  \<comment> \<open>the tool of \<open>server.py\<close>\<close>
  "add_button C root_arg target button author doc include_help update_layout mode_arg files =
     (let mode = (case mode_arg of None \<Rightarrow> ''dry_run'' | Some m \<Rightarrow> m);
          root = (if root_arg \<noteq> [] then resolved (work_dir C) root_arg else work_dir C)
      in if target = [] \<or> button = []
         then (files, ButtonFailed [''target and button_name are required''] mode)
         else add_button_engine C (path_str root) target button author doc include_help
                update_layout (Some mode) files)"


section \<open>The grouping, as the specification words it\<close>

text \<open>
  The records of all scanned scripts in scan order, those with a fingerprint of fewer than
  20 characters left out, and the grouping of such a list by key.
\<close>

definition long_records ::
  "env \<Rightarrow> fs \<Rightarrow> string list \<Rightarrow> (string \<times> int \<times> string \<times> string) list" where
  "long_records E files sps =
     concat (map (\<lambda>sp. map (\<lambda>r. (sp, r))
                         (filter (\<lambda>(ln, nm, body). 20 \<le> length body)
                            (extract_functions E files sp))) sps)"

definition record_key :: "env \<Rightarrow> bool \<Rightarrow> string \<times> int \<times> string \<times> string \<Rightarrow> key" where
  "record_key E same r =
     (case r of (sp, ln, nm, body) \<Rightarrow> (hash_body E body, if same then Some nm else None))"

definition record_loc :: "string \<times> int \<times> string \<times> string \<Rightarrow> location" where
  "record_loc r =
     (case r of (sp, ln, nm, body) \<Rightarrow> \<lparr>script = Some sp, line = Some ln, name = Some nm\<rparr>)"

fun group_records ::
  "env \<Rightarrow> bool \<Rightarrow> (string \<times> int \<times> string \<times> string) list \<Rightarrow> groups \<Rightarrow> groups" where
  "group_records E same [] g = g"
| "group_records E same (r # rs) g =
     group_records E same rs (setdefault_append (record_key E same r) (record_loc r) g)"

definition first_seen :: "'a list \<Rightarrow> 'a list" where
  \<comment> \<open>the distinct elements of a list, in the order of their first occurrence\<close>
  "first_seen xs = rev (remdups (rev xs))"

definition scan_sources :: "env \<Rightarrow> string list option \<Rightarrow> string list" where
  \<comment> \<open>the scripts \<open>analyze\<close> scans: the inventory when no path is given\<close>
  "scan_sources E script_paths =
     (case script_paths of None \<Rightarrow> py_files E
      | Some ps \<Rightarrow> if ps = [] then py_files E else ps)"

definition all_clusters :: "env \<Rightarrow> fs \<Rightarrow> string list option \<Rightarrow> bool \<Rightarrow> cluster list" where
  \<comment> \<open>the sorted cluster list of \<open>analyze\<close>, before \<open>limit\<close> cuts it\<close>
  "all_clusters E files script_paths same =
     sort_clusters (clusters_of (scan_scripts E files same (scan_sources E script_paths) []))"


section \<open>Worked inputs\<close>

text \<open>
  Four small repositories, each with the two entry scripts \<open>A.pushbutton/script.py\<close> and
  \<open>B.pushbutton/script.py\<close> holding the same text. \<open>demo_parse\<close> gives the trees Python's
  parser builds for the four texts and \<open>demo_hash\<close> the first 16 hexadecimal digits of the
  SHA-256 of the three fingerprints that occur.
\<close>

definition foo_text :: string where
  "foo_text = ''def foo(a, b): return a+b'' @ nl"

definition plain_text :: string where
  "plain_text = ''def foo(a, b):'' @ nl @ ''    x = a'' @ nl @ ''    y = b'' @ nl
     @ ''    return x + y'' @ nl"

definition long_text :: string where
  "long_text = ''import os'' @ nl @ ''def foo(a, b):'' @ nl @ ''    x = a'' @ nl
     @ ''    y = b'' @ nl @ ''    return x + y'' @ nl @ ''print(foo(1, 2))'' @ nl"

definition class_text :: string where
  "class_text = ''class A:'' @ nl @ ''    def m(self, a):'' @ nl @ ''        x = a'' @ nl
     @ ''        y = x'' @ nl @ ''        return y'' @ nl @ ''def f(a, b, c):'' @ nl
     @ ''    x = a'' @ nl @ ''    y = b'' @ nl @ ''    return c'' @ nl"

definition demo_parse :: "string \<Rightarrow> node list option" where
  "demo_parse t =
     (if t = foo_text then Some [FunctionDef ''foo'' 2 [Return] 1 1]
      else if t = plain_text then Some [FunctionDef ''foo'' 2 [Assign, Assign, Return] 1 4]
      else if t = long_text
      then Some [Other [], FunctionDef ''foo'' 2 [Assign, Assign, Return] 2 5, Expr]
      else if t = class_text
      then Some [Other [FunctionDef ''m'' 2 [Assign, Assign, Return] 2 5],
                 FunctionDef ''f'' 3 [Assign, Assign, Return] 6 9]
      else None)"

definition demo_hash :: "string \<Rightarrow> string" where
  "demo_hash b =
     (if b = ''def(2):assignassignreturn'' then ''624a3fe7d65d39d5''
      else if b = ''def(3):assignassignreturn'' then ''551f5bc7a8c1cce7''
      else if b = ''def(2):return'' then ''d00fc83bb1e4b166''
      else ''0000000000000000'')"

definition demo_env :: env where
  "demo_env = \<lparr>repo_root = [''repo''], parse = demo_parse, hash_body = demo_hash,
     py_files = [''A.pushbutton/script.py'', ''B.pushbutton/script.py'']\<rparr>"

definition demo_files :: "string \<Rightarrow> fs" where
  "demo_files t = [[''repo'', ''A.pushbutton'', ''script.py''] \<mapsto> t,
                   [''repo'', ''B.pushbutton'', ''script.py''] \<mapsto> t]"


text \<open>
  A small extension for the creator: one tab with one panel that holds the pushbutton \<open>B\<close>
  and the pulldown \<open>D\<close> with the button \<open>X\<close>. \<open>demo_templates\<close> stands in for the
  template files of the package, and the two parsers of \<open>demo_creator\<close> fail on every
  input: the worked calls give neither a configuration file nor a JSON text.
\<close>

definition demo_templates :: "string \<Rightarrow> string" where
  "demo_templates n =
     (if n = ''script.py'' then ''title={{title}} author={{author}} doc={{doc}}''
      else if n = ''bundle_pushbutton.yaml'' then ''title: {{title}}'' @ nl @ ''tooltip: {{tooltip}}''
      else if n = ''help.html'' then ''{{title}}: {{doc}}''
      else if n = ''extensions.json'' then ''{{name}}, {{description}}, {{author}}''
      else ''layout:'' @ nl @ ''{{layout}}'')"

definition demo_creator :: creator_env where
  "demo_creator = \<lparr>work_dir = [''work''], templates = demo_templates,
     load_extension_config = (\<lambda>files p. Inl ''Config file not found''),
     json_loads = (\<lambda>s. Inl ''Expecting value'')\<rparr>"

definition demo_tabs :: "tab list" where
  "demo_tabs =
     [\<lparr>tab_name = Some ''T'',
       tab_panels =
         [\<lparr>panel_name = Some ''P'',
           panel_items =
             [\<lparr>item_name = Some ''B'', item_type = None, item_buttons = Dicts [],
                item_items = Dicts []\<rparr>,
              \<lparr>item_name = Some ''D'', item_type = Some ''pulldown'',
                item_buttons = Names [''X''], item_items = Dicts []\<rparr>]\<rparr>]\<rparr>]"


section \<open>Properties of the patch engine\<close>

lemma join_append:
  "join sep (xs @ ys) = join sep xs @ (if xs = [] \<or> ys = [] then [] else sep) @ join sep ys"
  by (induction sep xs rule: join.induct) (auto simp: neq_Nil_conv)

lemma prefix_path_str: "prefix p q \<Longrightarrow> prefix (path_str p) (path_str q)"
  by (auto simp: prefix_def path_str_def join_append)

lemma apply_loop_errors:
  "snd (snd (apply_loop root mode ps (files, applied, errs))) =
     errs @ map (\<lambda>p. Skipped (path p)) (filter (\<lambda>p. \<not> inside_repo root (path p)) ps)"
  by (induction ps arbitrary: files applied errs) auto

lemma apply_loop_applied:
  "fst (snd (apply_loop root mode ps (files, applied, errs))) =
     applied @ map (\<lambda>p. if mode = ''write'' then path p else path p @ '' (dry-run)'')
                 (filter (\<lambda>p. inside_repo root (path p)) ps)"
  by (induction ps arbitrary: files applied errs) auto

lemma apply_loop_dry_files:
  "mode \<noteq> ''write'' \<Longrightarrow> fst (apply_loop root mode ps (files, applied, errs)) = files"
  by (induction ps arbitrary: files applied errs) auto

lemma apply_loop_write_files:
  "fst (apply_loop root ''write'' ps (files, applied, errs)) = files_after root ps files"
  by (induction ps arbitrary: files applied errs) auto

lemma files_after_other:
  "list_all (\<lambda>p. inside_repo root (path p) \<longrightarrow> resolved root (path p) \<noteq> q) ps
     \<Longrightarrow> files_after root ps files q = files q"
  by (induction ps arbitrary: files) auto

lemma files_after_add: "files_after root ps (f ++ g) = f ++ files_after root ps g"
proof (induction ps arbitrary: g)
  case Nil
  show ?case by simp
next
  case (Cons p ps)
  show ?case
  proof (cases "inside_repo root (path p)")
    case False
    then show ?thesis using Cons.IH [of g] by simp
  next
    case True
    let ?k = "resolved root (path p)" and ?v = "patch_text p"
    have "files_after root (p # ps) (f ++ g) = files_after root ps ((f ++ g)(?k \<mapsto> ?v))"
      using True by simp
    also have "(f ++ g)(?k \<mapsto> ?v) = f ++ g(?k \<mapsto> ?v)"
      by (simp only: map_add_upd)
    also have "files_after root ps (f ++ g(?k \<mapsto> ?v)) = f ++ files_after root ps (g(?k \<mapsto> ?v))"
      by (rule Cons.IH)
    also have "files_after root ps (g(?k \<mapsto> ?v)) = files_after root (p # ps) g"
      using True by simp
    finally show ?thesis .
  qed
qed

lemma map_add_twice: "(f ++ g) ++ g = f ++ (g :: 'a \<rightharpoonup> 'b)"
  by (rule ext) (simp add: map_add_def split: option.split)

lemma files_after_idem:
  "files_after root ps (files_after root ps files) = files_after root ps files"
proof -
  let ?w = "files_after root ps Map.empty"
  have eq: "files_after root ps f = f ++ ?w" for f
    using files_after_add [of root ps f Map.empty] by simp
  have "files_after root ps (files ++ ?w) = (files ++ ?w) ++ ?w" by (rule eq)
  also have "\<dots> = files ++ ?w" by (rule map_add_twice)
  finally show ?thesis by (simp only: eq [of files, symmetric])
qed

text \<open>
  C9. Applying the same patch list twice in write mode: the second call leaves the file
  system exactly as the first call left it, and returns the same \<open>applied\<close> and \<open>errors\<close>.
\<close>

theorem C9_apply_twice_idempotent:
  "apply_patches root ps ''write'' (fst (apply_patches root ps ''write'' files)) =
     apply_patches root ps ''write'' files"
proof -
  have f: "fst (apply_patches root ps ''write'' g) = files_after root ps g" for g
    unfolding apply_patches_def by (rule apply_loop_write_files)
  have a: "fst (snd (apply_patches root ps ''write'' g)) =
           fst (snd (apply_patches root ps ''write'' files))" for g
    unfolding apply_patches_def by (simp only: apply_loop_applied)
  have e: "snd (snd (apply_patches root ps ''write'' g)) =
           snd (snd (apply_patches root ps ''write'' files))" for g
    unfolding apply_patches_def by (simp only: apply_loop_errors)
  show ?thesis
    using a [of "fst (apply_patches root ps ''write'' files)"]
      e [of "fst (apply_patches root ps ''write'' files)"]
    by (simp add: prod_eq_iff f files_after_idem)
qed

theorem C9_apply_twice_idempotent_witness:
  "fst (apply_patches [''repo'']
         [\<lparr>path = ''a.py'', diff = ''+x'', content = None, risk = ''low'', summary = []\<rparr>,
          \<lparr>path = ''a.py'', diff = [], content = Some ''y'', risk = ''low'', summary = []\<rparr>]
         ''write''
         (fst (apply_patches [''repo'']
            [\<lparr>path = ''a.py'', diff = ''+x'', content = None, risk = ''low'', summary = []\<rparr>,
             \<lparr>path = ''a.py'', diff = [], content = Some ''y'', risk = ''low'', summary = []\<rparr>]
            ''write'' Map.empty))) [''repo'', ''a.py''] = Some ''y''"
  unfolding C9_apply_twice_idempotent
  by (simp add: apply_patches_def inside_repo_def resolved_def path_parts_def
      is_absolute_def path_str_def patch_text_def)

text \<open>
  C1 (as amended). A path whose resolved form does not begin with the string of the
  repository root is rejected by both patch constructors, and \<open>apply_patches\<close> reports it
  in \<open>errors\<close> and not in \<open>applied\<close>, whatever the mode; the file at a path no accepted
  patch resolves to is left as it was. A path that resolves to a strict descendant of the
  root is accepted, also when it is written as an absolute path.
\<close>

theorem C1_containment_checked:
  "(\<not> prefix (path_str root) (path_str (resolved root rel)) \<longrightarrow>
      create_add_file_patch root rel c r = Inl (ValueError ''Path outside repo_root'') \<and>
      create_edit_patch root rel old new r = Inl (ValueError ''Path outside repo_root''))
   \<and> (strict_prefix root (resolved root rel) \<longrightarrow>
      map_sum id path (create_add_file_patch root rel c r) = Inr rel \<and>
      map_sum id path (create_edit_patch root rel old new r) = Inr rel)
   \<and> snd (snd (apply_patches root ps mode files)) =
       map (\<lambda>p. Skipped (path p))
         (filter (\<lambda>p. \<not> prefix (path_str root) (path_str (resolved root (path p)))) ps)
   \<and> fst (snd (apply_patches root ps mode files)) =
       map (\<lambda>p. if mode = ''write'' then path p else path p @ '' (dry-run)'')
         (filter (\<lambda>p. prefix (path_str root) (path_str (resolved root (path p)))) ps)
   \<and> (list_all (\<lambda>p. prefix (path_str root) (path_str (resolved root (path p)))
                     \<longrightarrow> resolved root (path p) \<noteq> q) ps
        \<longrightarrow> fst (apply_patches root ps mode files) q = files q)"
proof (intro conjI impI)
  assume "\<not> prefix (path_str root) (path_str (resolved root rel))"
  then show "create_add_file_patch root rel c r = Inl (ValueError ''Path outside repo_root'')"
    and "create_edit_patch root rel old new r = Inl (ValueError ''Path outside repo_root'')"
    by (simp_all add: create_add_file_patch_def create_edit_patch_def inside_repo_def)
next
  assume "strict_prefix root (resolved root rel)"
  then have "inside_repo root rel"
    unfolding inside_repo_def by (intro prefix_path_str) (rule strict_prefixE)
  then show "map_sum id path (create_add_file_patch root rel c r) = Inr rel"
    and "map_sum id path (create_edit_patch root rel old new r) = Inr rel"
    by (simp_all add: create_add_file_patch_def create_edit_patch_def)
next
  show "snd (snd (apply_patches root ps mode files)) =
       map (\<lambda>p. Skipped (path p))
         (filter (\<lambda>p. \<not> prefix (path_str root) (path_str (resolved root (path p)))) ps)"
    unfolding apply_patches_def apply_loop_errors by (simp add: inside_repo_def)
next
  show "fst (snd (apply_patches root ps mode files)) =
       map (\<lambda>p. if mode = ''write'' then path p else path p @ '' (dry-run)'')
         (filter (\<lambda>p. prefix (path_str root) (path_str (resolved root (path p)))) ps)"
    unfolding apply_patches_def apply_loop_applied by (simp add: inside_repo_def)
next
  assume a: "list_all (\<lambda>p. prefix (path_str root) (path_str (resolved root (path p)))
                     \<longrightarrow> resolved root (path p) \<noteq> q) ps"
  show "fst (apply_patches root ps mode files) q = files q"
  proof (cases "mode = ''write''")
    case True
    have "files_after root ps files q = files q"
      by (rule files_after_other) (use a in \<open>simp add: inside_repo_def\<close>)
    then show ?thesis
      using True by (simp add: apply_patches_def apply_loop_write_files)
  next
    case False
    then show ?thesis by (simp add: apply_patches_def apply_loop_dry_files)
  qed
qed

lemma escape_rejected_by_check:
  "\<not> prefix (path_str [''repo'']) (path_str (resolved [''repo''] ''../escape.py''))"
  by (simp add: resolved_def path_parts_def is_absolute_def path_str_def)

lemma lib_path_descends:
  "strict_prefix [''repo''] (resolved [''repo''] ''lib/utils.py'')"
  by (simp add: resolved_def path_parts_def is_absolute_def strict_prefix_def)

theorem C1_containment_checked_witness:
  "create_add_file_patch [''repo''] ''../escape.py'' ''x = 1'' ''low''
     = Inl (ValueError ''Path outside repo_root'')
   \<and> create_edit_patch [''repo''] ''../escape.py'' [] ''x = 1'' ''low''
     = Inl (ValueError ''Path outside repo_root'')
   \<and> map_sum id path (create_add_file_patch [''repo''] ''lib/utils.py'' ''x = 1'' ''low'')
     = Inr ''lib/utils.py''
   \<and> snd (snd (apply_patches [''repo'']
        [\<lparr>path = ''../escape.py'', diff = [], content = Some ''x'', risk = ''low'',
          summary = []\<rparr>] ''write'' Map.empty)) = [Skipped ''../escape.py'']
   \<and> fst (snd (apply_patches [''repo'']
        [\<lparr>path = ''../escape.py'', diff = [], content = Some ''x'', risk = ''low'',
          summary = []\<rparr>] ''write'' Map.empty)) = []
   \<and> snd (snd (apply_patches [''repo'']
        [\<lparr>path = ''../escape.py'', diff = [], content = Some ''x'', risk = ''low'',
          summary = []\<rparr>] ''dry_run'' Map.empty)) = [Skipped ''../escape.py'']
   \<and> fst (apply_patches [''repo'']
        [\<lparr>path = ''../escape.py'', diff = [], content = Some ''x'', risk = ''low'',
          summary = []\<rparr>] ''write'' Map.empty) [''escape.py''] = None"
proof -
  let ?p = "\<lparr>path = ''../escape.py'', diff = [], content = Some ''x'', risk = ''low'',
          summary = []\<rparr>"
  note esc = escape_rejected_by_check
  have 1: "create_add_file_patch [''repo''] ''../escape.py'' ''x = 1'' ''low''
       = Inl (ValueError ''Path outside repo_root'')
     \<and> create_edit_patch [''repo''] ''../escape.py'' [] ''x = 1'' ''low''
       = Inl (ValueError ''Path outside repo_root'')"
    using C1_containment_checked [of "[''repo'']" "''../escape.py''" "''x = 1''" "''low''"
        "[]" "''x = 1''"] esc by blast
  have 2: "map_sum id path (create_add_file_patch [''repo''] ''lib/utils.py'' ''x = 1'' ''low'')
     = Inr ''lib/utils.py''"
    using C1_containment_checked [of "[''repo'']" "''lib/utils.py''" "''x = 1''" "''low''"]
      lib_path_descends by blast
  have 3: "snd (snd (apply_patches [''repo''] [?p] m Map.empty)) = [Skipped ''../escape.py'']
     \<and> fst (snd (apply_patches [''repo''] [?p] m Map.empty)) = []
     \<and> fst (apply_patches [''repo''] [?p] m Map.empty) [''escape.py''] = None" for m
    using C1_containment_checked [of "[''repo'']" _ _ _ _ _ "[?p]" m Map.empty "[''escape.py'']"]
      esc by simp
  show ?thesis
    using 1 2 3 [of "''write''"] 3 [of "''dry_run''"] by simp
qed

theorem C1_absolute_path_accepted:
  "is_absolute ''/repo/a.py''
   \<and> map_sum id path (create_add_file_patch [''repo''] ''/repo/a.py'' ''x = 1'' ''low'')
       = Inr ''/repo/a.py''
   \<and> map_sum id path (create_edit_patch [''repo''] ''/repo/a.py'' [] ''x = 1'' ''low'')
       = Inr ''/repo/a.py''
   \<and> fst (snd (apply_patches [''repo'']
        [\<lparr>path = ''/repo/a.py'', diff = [], content = Some ''x = 1'', risk = ''low'',
          summary = []\<rparr>] ''write'' Map.empty)) = [''/repo/a.py'']
   \<and> snd (snd (apply_patches [''repo'']
        [\<lparr>path = ''/repo/a.py'', diff = [], content = Some ''x = 1'', risk = ''low'',
          summary = []\<rparr>] ''write'' Map.empty)) = []"
  by (simp add: create_add_file_patch_def create_edit_patch_def apply_patches_def
      inside_repo_def resolved_def path_parts_def is_absolute_def path_str_def)

text \<open>
  The check compares strings, not components: under the root \<open>/repo\<close> the path
  \<open>../repo2/x.py\<close> resolves to \<open>/repo2/x.py\<close>, outside the root, and passes.
\<close>

lemma sibling_with_shared_prefix_accepted:
  "resolved [''repo''] ''../repo2/x.py'' = [''repo2'', ''x.py'']
   \<and> \<not> prefix [''repo''] (resolved [''repo''] ''../repo2/x.py'')
   \<and> map_sum id path (create_add_file_patch [''repo''] ''../repo2/x.py'' ''x = 1'' ''low'')
       = Inr ''../repo2/x.py''
   \<and> fst (apply_patches [''repo'']
        [\<lparr>path = ''../repo2/x.py'', diff = [], content = Some ''x = 1'', risk = ''low'',
          summary = []\<rparr>] ''write'' Map.empty) [''repo2'', ''x.py''] = Some ''x = 1''"
  by (simp add: create_add_file_patch_def apply_patches_def patch_text_def
      inside_repo_def resolved_def path_parts_def is_absolute_def path_str_def)

lemma process_item_dry:
  "fst (process_item T ext_folder False include_help parent_rel it author_val st) = fst st"
  by (simp add: process_item_def Let_def)

lemma process_items_dry:
  "fst (fold (\<lambda>it. process_item T ext_folder False include_help parent_rel it author_val)
          its st) = fst st"
  by (induction its arbitrary: st) (simp_all add: process_item_dry)

lemma process_panel_dry:
  "fst (process_panel T ext_folder False include_help author_val tab_rel pn st) = fst st"
  by (simp add: process_panel_def Let_def process_items_dry)

lemma process_panels_dry:
  "fst (fold (process_panel T ext_folder False include_help author_val tab_rel) pns st)
     = fst st"
  by (induction pns arbitrary: st) (simp_all add: process_panel_dry)

lemma process_tabs_dry:
  "fst (fold (process_tab T ext_folder False include_help author_val) tbs st) = fst st"
  by (induction tbs arbitrary: st) (simp_all add: process_tab_def process_panels_dry)

lemma build_extension_dry:
  "mode \<noteq> ''write'' \<Longrightarrow>
     fst (build_extension C output_path extension_name tbs author_val description
            include_help mode files) = files"
  by (simp add: build_extension_def Let_def process_tabs_dry)

lemma create_extension_engine_dry:
  "mode \<noteq> ''write'' \<Longrightarrow>
     fst (create_extension_engine C output_path extension_name tbs author_val description
            include_help (Some mode) config_path files) = files"
  by (simp add: create_extension_engine_def Let_def build_extension_dry split: sum.split)

lemma create_extension_dry:
  "mode \<noteq> ''write'' \<Longrightarrow>
     fst (create_extension C output_path extension_name tabs_arg config_path author_val
            description include_help (Some mode) files) = files"
  by (simp add: create_extension_def Let_def create_extension_engine_dry
      split: option.split sum.split)

lemma add_button_engine_dry:
  "mode \<noteq> ''write'' \<Longrightarrow>
     fst (add_button_engine C root_arg target button author_val doc include_help
            update_layout (Some mode) files) = files"
  by (simp add: add_button_engine_def Let_def)

lemma add_button_dry:
  "mode \<noteq> ''write'' \<Longrightarrow>
     fst (add_button C root_arg target button author_val doc include_help update_layout
            (Some mode) files) = files"
  by (simp add: add_button_def Let_def add_button_engine_dry)

lemma generate_bundle_yaml_dry:
  "mode \<noteq> ''write'' \<Longrightarrow>
     (case generate_bundle_yaml root bundles script_title bundle_paths (Some mode) files of
        Inl err \<Rightarrow> True
      | Inr (files', res) \<Rightarrow> files' = files)"
  by (simp add: generate_bundle_yaml_def Let_def split: sum.split prod.split)

text \<open>
  In write mode the creator does write: the small extension gets its scripts, its
  layouts and its manifest.
\<close>

lemma create_extension_writes_in_write_mode:
  "map (fst (create_extension demo_creator ''out'' ''Demo'' (Some (Inr demo_tabs)) [] []
               [] False (Some ''write'') Map.empty))
     [[''work'', ''out'', ''Demo.extension'', ''T.tab'', ''P.panel'', ''bundle.yaml''],
      [''work'', ''out'', ''Demo.extension'', ''T.tab'', ''P.panel'', ''B.pushbutton'',
       ''script.py''],
      [''work'', ''out'', ''Demo.extension'', ''T.tab'', ''P.panel'', ''D.pulldown'',
       ''X.pushbutton'', ''bundle.yaml''],
      [''work'', ''out'', ''Demo.extension'', ''extensions.json''],
      [''work'', ''out'', ''Demo.extension'', ''T.tab'', ''P.panel'', ''B.pushbutton'',
       ''help.html'']]
   = [Some (''layout:'' @ nl @ ''  - B'' @ nl @ ''  - D''),
      Some ''title=B author=pyRevit doc=B'',
      Some (''title: X'' @ nl @ ''tooltip: X''),
      Some ''Demo, Demo, pyRevit'',
      None]"
  by code_simp

text \<open>
  C8 (as amended). Every operation that takes a mode takes \<open>dry_run\<close> when the caller
  gives none: the two engine methods \<open>apply_patches\<close> and \<open>extract\<close>, the engine functions
  \<open>create_extension\<close> and \<open>add_button\<close>, and the tools \<open>apply_patch\<close>, \<open>extract_to_lib\<close>,
  \<open>generate_bundle_yaml\<close>, \<open>import_audit_with_core\<close>, \<open>create_extension\<close> and \<open>add_button\<close>.
  The exceptions are \<open>create_extension_config\<close> and its tool, which take \<open>write\<close> and then
  write the template file at the resolved configuration path. Under every mode other than
  \<open>write\<close> none of these operations changes the file system, and \<open>apply_patches\<close> reports
  each patch that passes the containment check with the suffix \<open>(dry-run)\<close> and every
  other patch in \<open>errors\<close>. The import audit changes no file under any mode.
\<close>

theorem C8_simulate_unless_write:
  "apply_patch root patches_arg None files =
     apply_patches root (case patches_arg of None \<Rightarrow> [] | Some ps \<Rightarrow> ps) ''dry_run'' files
   \<and> extract_to_lib E files cs ci None same_arg =
     extract_engine E files cs ci ''dry_run'' (case same_arg of None \<Rightarrow> True | Some b \<Rightarrow> b)
   \<and> PatchEngine_apply_patches root ps None files = apply_patches root ps ''dry_run'' files
   \<and> ExtractToLibEngine_extract E files cs ci None same_arg =
     extract_engine E files cs ci ''dry_run'' (case same_arg of None \<Rightarrow> True | Some b \<Rightarrow> b)
   \<and> generate_bundle_yaml root bundles script_title bundle_paths None files =
     generate_bundle_yaml root bundles script_title bundle_paths (Some ''dry_run'') files
   \<and> import_audit_with_core A script_paths core_root allowlist None files =
     import_audit_with_core A script_paths core_root allowlist (Some ''dry_run'') files
   \<and> create_extension_engine C output_path extension_name tbs author_val description
       include_help None config_path files =
     create_extension_engine C output_path extension_name tbs author_val description
       include_help (Some ''dry_run'') config_path files
   \<and> create_extension C output_path extension_name tabs_arg config_arg author_val description
       include_help None files =
     create_extension C output_path extension_name tabs_arg config_arg author_val description
       include_help (Some ''dry_run'') files
   \<and> add_button_engine C root_arg target button author_val doc include_help update_layout
       None files =
     add_button_engine C root_arg target button author_val doc include_help update_layout
       (Some ''dry_run'') files
   \<and> add_button C root_arg target button author_val doc include_help update_layout None
       files =
     add_button C root_arg target button author_val doc include_help update_layout
       (Some ''dry_run'') files
   \<and> (mode \<noteq> ''write'' \<longrightarrow>
        apply_patches root ps mode files =
          (files,
           map (\<lambda>p. path p @ '' (dry-run)'') (filter (\<lambda>p. inside_repo root (path p)) ps),
           map (\<lambda>p. Skipped (path p)) (filter (\<lambda>p. \<not> inside_repo root (path p)) ps))
        \<and> fst (apply_patch root patches_arg (Some mode) files) = files
        \<and> (case extract_engine E files cs ci mode same of
              Inl err \<Rightarrow> True
            | Inr (files', res) \<Rightarrow> files' = files)
        \<and> (case extract_to_lib E files cs ci (Some mode) same_arg of
              Inl err \<Rightarrow> True
            | Inr (files', res) \<Rightarrow> files' = files)
        \<and> fst (create_extension_config cwd template cp (Some mode) files) = files
        \<and> fst (create_extension_config_tool cwd template cpo (Some mode) files) = files
        \<and> (case generate_bundle_yaml root bundles script_title bundle_paths (Some mode)
                   files of
              Inl err \<Rightarrow> True
            | Inr (files', res) \<Rightarrow> files' = files)
        \<and> fst (create_extension_engine C output_path extension_name tbs author_val
                 description include_help (Some mode) config_path files) = files
        \<and> fst (create_extension C output_path extension_name tabs_arg config_arg author_val
                 description include_help (Some mode) files) = files
        \<and> fst (add_button_engine C root_arg target button author_val doc include_help
                 update_layout (Some mode) files) = files
        \<and> fst (add_button C root_arg target button author_val doc include_help
                 update_layout (Some mode) files) = files)
   \<and> fst (import_audit_with_core A script_paths core_root allowlist mode_arg files) = files
   \<and> fst (create_extension_config cwd template cp None files)
       = files(resolved cwd cp \<mapsto> template)
   \<and> fst (create_extension_config_tool cwd template cpo None files)
       = files(resolved cwd (case cpo of
                               None \<Rightarrow> ''extension_config.yaml''
                             | Some c \<Rightarrow> if c = [] then ''extension_config.yaml'' else c)
               \<mapsto> template)"
proof (intro conjI impI)
  show "apply_patch root patches_arg None files =
     apply_patches root (case patches_arg of None \<Rightarrow> [] | Some ps \<Rightarrow> ps) ''dry_run'' files"
    by (simp add: apply_patch_def)
  show "extract_to_lib E files cs ci None same_arg =
     extract_engine E files cs ci ''dry_run'' (case same_arg of None \<Rightarrow> True | Some b \<Rightarrow> b)"
    by (simp add: extract_to_lib_def)
  show "PatchEngine_apply_patches root ps None files = apply_patches root ps ''dry_run'' files"
    by (simp add: PatchEngine_apply_patches_def)
  show "ExtractToLibEngine_extract E files cs ci None same_arg =
     extract_engine E files cs ci ''dry_run'' (case same_arg of None \<Rightarrow> True | Some b \<Rightarrow> b)"
    by (simp add: ExtractToLibEngine_extract_def)
  show "generate_bundle_yaml root bundles script_title bundle_paths None files =
     generate_bundle_yaml root bundles script_title bundle_paths (Some ''dry_run'') files"
    by (simp add: generate_bundle_yaml_def)
  show "import_audit_with_core A script_paths core_root allowlist None files =
     import_audit_with_core A script_paths core_root allowlist (Some ''dry_run'') files"
    by (simp add: import_audit_with_core_def)
  show "create_extension_engine C output_path extension_name tbs author_val description
       include_help None config_path files =
     create_extension_engine C output_path extension_name tbs author_val description
       include_help (Some ''dry_run'') config_path files"
    by (simp add: create_extension_engine_def)
  show "create_extension C output_path extension_name tabs_arg config_arg author_val description
       include_help None files =
     create_extension C output_path extension_name tabs_arg config_arg author_val description
       include_help (Some ''dry_run'') files"
    by (simp add: create_extension_def)
  show "add_button_engine C root_arg target button author_val doc include_help update_layout
       None files =
     add_button_engine C root_arg target button author_val doc include_help update_layout
       (Some ''dry_run'') files"
    by (simp add: add_button_engine_def)
  show "add_button C root_arg target button author_val doc include_help update_layout None
       files =
     add_button C root_arg target button author_val doc include_help update_layout
       (Some ''dry_run'') files"
    by (simp add: add_button_def)
  show "fst (import_audit_with_core A script_paths core_root allowlist mode_arg files) = files"
    by (simp add: import_audit_with_core_def Let_def)
  show "fst (create_extension_config cwd template cp None files)
       = files(resolved cwd cp \<mapsto> template)"
    by (simp add: create_extension_config_def Let_def)
  show "fst (create_extension_config_tool cwd template cpo None files)
       = files(resolved cwd (case cpo of
                               None \<Rightarrow> ''extension_config.yaml''
                             | Some c \<Rightarrow> if c = [] then ''extension_config.yaml'' else c)
               \<mapsto> template)"
    by (simp add: create_extension_config_tool_def create_extension_config_def Let_def)
next
  assume m: "mode \<noteq> ''write''"
  have "fst (apply_patches root ps mode files) = files"
    using m by (simp add: apply_patches_def apply_loop_dry_files)
  moreover have "fst (snd (apply_patches root ps mode files)) =
      map (\<lambda>p. path p @ '' (dry-run)'') (filter (\<lambda>p. inside_repo root (path p)) ps)"
    using m by (simp add: apply_patches_def apply_loop_applied)
  moreover have "snd (snd (apply_patches root ps mode files)) =
      map (\<lambda>p. Skipped (path p)) (filter (\<lambda>p. \<not> inside_repo root (path p)) ps)"
    by (simp add: apply_patches_def apply_loop_errors)
  ultimately show "apply_patches root ps mode files =
          (files,
           map (\<lambda>p. path p @ '' (dry-run)'') (filter (\<lambda>p. inside_repo root (path p)) ps),
           map (\<lambda>p. Skipped (path p)) (filter (\<lambda>p. \<not> inside_repo root (path p)) ps))"
    by (simp add: prod_eq_iff)
  show "fst (apply_patch root patches_arg (Some mode) files) = files"
    using m by (simp add: apply_patch_def apply_patches_def apply_loop_dry_files)
  show "case extract_engine E files cs ci mode same of
              Inl err \<Rightarrow> True
            | Inr (files', res) \<Rightarrow> files' = files"
    using m by (simp add: extract_engine_def Let_def split: sum.split prod.split)
  show "case extract_to_lib E files cs ci (Some mode) same_arg of
              Inl err \<Rightarrow> True
            | Inr (files', res) \<Rightarrow> files' = files"
    using m by (simp add: extract_to_lib_def extract_engine_def Let_def
        split: sum.split prod.split)
  show "fst (create_extension_config cwd template cp (Some mode) files) = files"
    using m by (simp add: create_extension_config_def Let_def)
  show "fst (create_extension_config_tool cwd template cpo (Some mode) files) = files"
    using m by (simp add: create_extension_config_tool_def create_extension_config_def Let_def)
  show "case generate_bundle_yaml root bundles script_title bundle_paths (Some mode)
                   files of
              Inl err \<Rightarrow> True
            | Inr (files', res) \<Rightarrow> files' = files"
    using m by (rule generate_bundle_yaml_dry)
  show "fst (create_extension_engine C output_path extension_name tbs author_val
                 description include_help (Some mode) config_path files) = files"
    using m by (rule create_extension_engine_dry)
  show "fst (create_extension C output_path extension_name tabs_arg config_arg author_val
                 description include_help (Some mode) files) = files"
    using m by (rule create_extension_dry)
  show "fst (add_button_engine C root_arg target button author_val doc include_help
                 update_layout (Some mode) files) = files"
    using m by (rule add_button_engine_dry)
  show "fst (add_button C root_arg target button author_val doc include_help
                 update_layout (Some mode) files) = files"
    using m by (rule add_button_dry)
qed

theorem C8_simulate_unless_write_witness:
  "apply_patches [''repo'']
     [\<lparr>path = ''a.py'', diff = [], content = Some ''x'', risk = ''low'', summary = []\<rparr>,
      \<lparr>path = ''../b.py'', diff = [], content = Some ''y'', risk = ''low'', summary = []\<rparr>]
     ''dry_run'' Map.empty
   = (Map.empty, [''a.py (dry-run)''], [Skipped ''../b.py''])
   \<and> fst (create_extension_config [''work''] ''name: x'' ''cfg.yaml'' (Some ''dry_run'')
            Map.empty) = Map.empty
   \<and> create_extension demo_creator ''out'' ''Demo'' (Some (Inr demo_tabs)) [] [] [] True
        (Some ''dry_run'') Map.empty
     = (Map.empty,
        ExtensionCreated ''/work/out/Demo.extension''
          [''T.tab/P.panel/bundle.yaml'',
           ''T.tab/P.panel/B.pushbutton/script.py'',
           ''T.tab/P.panel/B.pushbutton/bundle.yaml'',
           ''T.tab/P.panel/B.pushbutton/help.html'',
           ''T.tab/P.panel/D.pulldown/bundle.yaml'',
           ''T.tab/P.panel/D.pulldown/X.pushbutton/script.py'',
           ''T.tab/P.panel/D.pulldown/X.pushbutton/bundle.yaml'',
           ''T.tab/P.panel/D.pulldown/X.pushbutton/help.html'',
           ''extensions.json'']
          [] ''dry_run'')
   \<and> add_button demo_creator ''ext'' ''T.tab/P.panel'' ''New'' [] [] True True
        (Some ''dry_run'') Map.empty
     = (Map.empty,
        ButtonAdded ''/work/ext/T.tab/P.panel/New.pushbutton''
          [''T.tab/P.panel/New.pushbutton/script.py'',
           ''T.tab/P.panel/New.pushbutton/bundle.yaml'',
           ''T.tab/P.panel/New.pushbutton/help.html'']
          [] ''dry_run'' False)"
proof -
  let ?ps = "[\<lparr>path = ''a.py'', diff = [], content = Some ''x'', risk = ''low'', summary = []\<rparr>,
          \<lparr>path = ''../b.py'', diff = [], content = Some ''y'', risk = ''low'', summary = []\<rparr>]"
  have m: "''dry_run'' \<noteq> ''write''" by simp
  have i: "inside_repo [''repo''] ''a.py''" "\<not> inside_repo [''repo''] ''../b.py''"
    by (simp_all add: inside_repo_def resolved_def path_parts_def is_absolute_def path_str_def)
  note frame = C8_simulate_unless_write [where mode = "''dry_run''" and root = "[''repo'']"
      and files = Map.empty and ps = ?ps and cwd = "[''work'']" and template = "''name: x''"
      and cp = "''cfg.yaml''" and C = demo_creator and output_path = "''out''"
      and extension_name = "''Demo''" and tabs_arg = "Some (Inr demo_tabs)"
      and config_arg = "[]" and author_val = "[]" and description = "[]"
      and include_help = True and root_arg = "''ext''" and target = "''T.tab/P.panel''"
      and button = "''New''" and doc = "[]" and update_layout = True,
      THEN conjunct2, THEN conjunct2, THEN conjunct2, THEN conjunct2, THEN conjunct2,
      THEN conjunct2, THEN conjunct2, THEN conjunct2, THEN conjunct2, THEN conjunct2,
      THEN conjunct1, rule_format, OF m]
  have e: "snd (create_extension demo_creator ''out'' ''Demo'' (Some (Inr demo_tabs)) [] [] []
        True (Some ''dry_run'') Map.empty)
     = ExtensionCreated ''/work/out/Demo.extension''
          [''T.tab/P.panel/bundle.yaml'',
           ''T.tab/P.panel/B.pushbutton/script.py'',
           ''T.tab/P.panel/B.pushbutton/bundle.yaml'',
           ''T.tab/P.panel/B.pushbutton/help.html'',
           ''T.tab/P.panel/D.pulldown/bundle.yaml'',
           ''T.tab/P.panel/D.pulldown/X.pushbutton/script.py'',
           ''T.tab/P.panel/D.pulldown/X.pushbutton/bundle.yaml'',
           ''T.tab/P.panel/D.pulldown/X.pushbutton/help.html'',
           ''extensions.json'']
          [] ''dry_run''"
    by code_simp
  have b: "snd (add_button demo_creator ''ext'' ''T.tab/P.panel'' ''New'' [] [] True True
        (Some ''dry_run'') Map.empty)
     = ButtonAdded ''/work/ext/T.tab/P.panel/New.pushbutton''
          [''T.tab/P.panel/New.pushbutton/script.py'',
           ''T.tab/P.panel/New.pushbutton/bundle.yaml'',
           ''T.tab/P.panel/New.pushbutton/help.html'']
          [] ''dry_run'' False"
    by code_simp
  have p: "apply_patches [''repo''] ?ps ''dry_run'' Map.empty
      = (Map.empty, [''a.py (dry-run)''], [Skipped ''../b.py''])"
    using frame [THEN conjunct1] i by simp
  have c: "fst (create_extension_config [''work''] ''name: x'' ''cfg.yaml'' (Some ''dry_run'')
            Map.empty) = Map.empty"
    by (rule frame [THEN conjunct2, THEN conjunct2, THEN conjunct2, THEN conjunct2,
          THEN conjunct1])
  have x: "fst (create_extension demo_creator ''out'' ''Demo'' (Some (Inr demo_tabs)) [] [] []
        True (Some ''dry_run'') Map.empty) = Map.empty"
    by (rule frame [THEN conjunct2, THEN conjunct2, THEN conjunct2, THEN conjunct2,
          THEN conjunct2, THEN conjunct2, THEN conjunct2, THEN conjunct2, THEN conjunct1])
  have y: "fst (add_button demo_creator ''ext'' ''T.tab/P.panel'' ''New'' [] [] True True
        (Some ''dry_run'') Map.empty) = Map.empty"
    by (rule frame [THEN conjunct2, THEN conjunct2, THEN conjunct2, THEN conjunct2,
          THEN conjunct2, THEN conjunct2, THEN conjunct2, THEN conjunct2, THEN conjunct2,
          THEN conjunct2])
  show ?thesis
    by (intro conjI) (simp_all only: p c prod_eq_iff x y e b fst_conv snd_conv simp_thms)
qed

theorem C8_config_tool_writes_by_default:
  "fst (create_extension_config_tool [''work''] ''name: x'' None None Map.empty)
     [''work'', ''extension_config.yaml''] = Some ''name: x''
   \<and> cfg_mode (snd (create_extension_config_tool [''work''] ''name: x'' None None Map.empty))
     = ''write''"
  by (simp add: create_extension_config_tool_def create_extension_config_def Let_def
      resolved_def path_parts_def is_absolute_def)

section \<open>Properties of the duplicate detector\<close>

lemma group_records_append:
  "group_records E same (xs @ ys) g = group_records E same ys (group_records E same xs g)"
  by (induction xs arbitrary: g) auto

lemma scan_functions_group:
  "scan_functions E same sp recs g =
     group_records E same
       (map (\<lambda>r. (sp, r)) (filter (\<lambda>(ln, nm, body). 20 \<le> length body) recs)) g"
  by (induction recs arbitrary: g) (auto simp: record_key_def record_loc_def)

lemma scan_scripts_group:
  "scan_scripts E files same sps g = group_records E same (long_records E files sps) g"
proof (induction sps arbitrary: g)
  case Nil
  show ?case by (simp add: long_records_def)
next
  case (Cons sp sps)
  have "long_records E files (sp # sps) =
      map (\<lambda>r. (sp, r)) (filter (\<lambda>(ln, nm, body). 20 \<le> length body)
                            (extract_functions E files sp))
      @ long_records E files sps"
    by (simp add: long_records_def)
  then show ?case
    by (simp add: group_records_append scan_functions_group Cons.IH)
qed

lemma keys_setdefault_append:
  "map fst (setdefault_append k v g) =
     (if k \<in> set (map fst g) then map fst g else map fst g @ [k])"
  by (induction g) force+

lemma first_seen_snoc:
  "first_seen (xs @ [x]) = (if x \<in> set xs then first_seen xs else first_seen xs @ [x])"
  by (simp add: first_seen_def)

lemma set_first_seen: "set (first_seen xs) = set xs"
  by (simp add: first_seen_def)

lemma keys_group_records:
  "map fst (group_records E same recs []) = first_seen (map (record_key E same) recs)"
proof (induction recs rule: rev_induct)
  case Nil
  show ?case by (simp add: first_seen_def)
next
  case (snoc r recs)
  have "set (map fst (group_records E same recs [])) = set (map (record_key E same) recs)"
    by (simp only: snoc.IH set_first_seen)
  then show ?case
    using snoc.IH
    by (simp add: group_records_append keys_setdefault_append first_seen_snoc
        del: set_map)
qed

lemma locs_setdefault_append:
  "set (concat (map snd (setdefault_append k v g))) = insert v (set (concat (map snd g)))"
proof (induction g)
  case Nil
  show ?case by simp
next
  case (Cons a g)
  obtain k' vs where a: "a = (k', vs)" by (cases a)
  show ?case
  proof (cases "k' = k")
    case True
    then show ?thesis by (simp add: a del: set_concat)
  next
    case False
    have "set (concat (map snd (setdefault_append k v (a # g)))) =
        set vs \<union> set (concat (map snd (setdefault_append k v g)))"
      using False by (simp add: a del: set_concat)
    also have "\<dots> = insert v (set vs \<union> set (concat (map snd g)))"
      unfolding Cons.IH by blast
    finally show ?thesis by (simp add: a del: set_concat)
  qed
qed

lemma locs_group_records:
  "set (concat (map snd (group_records E same recs g))) =
     record_loc ` set recs \<union> set (concat (map snd g))"
  by (induction recs arbitrary: g) (auto simp: locs_setdefault_append simp del: set_concat)

lemma clusters_of_size: "list_all (\<lambda>c. 2 \<le> length (locations c)) (clusters_of g)"
  by (auto simp: clusters_of_def list_all_iff)

lemma analyze_clusters:
  "fst (analyze E files script_paths limit same) =
     (case limit of
        None \<Rightarrow> all_clusters E files script_paths same
      | Some l \<Rightarrow> if 0 < l then take (nat l) (all_clusters E files script_paths same)
                  else all_clusters E files script_paths same)"
  by (simp add: analyze_def all_clusters_def scan_sources_def Let_def split: option.split)

lemma analyze_findings:
  "snd (analyze E files script_paths limit same) =
     map (\<lambda>c. \<lparr>f_type = ''duplicate'', f_cluster = c, f_count = length (locations c)\<rparr>)
       (fst (analyze E files script_paths limit same))"
  by (simp add: analyze_def Let_def)

lemma set_analyze_clusters:
  "set (fst (analyze E files script_paths limit same))
     \<subseteq> set (clusters_of (scan_scripts E files same (scan_sources E script_paths) []))"
proof -
  have "set (fst (analyze E files script_paths limit same))
      \<subseteq> set (all_clusters E files script_paths same)"
    unfolding analyze_clusters by (auto split: option.split dest: in_set_takeD)
  then show ?thesis by (simp add: all_clusters_def sort_clusters_def)
qed

text \<open>
  C4. Every cluster \<open>analyze\<close> returns has at least two locations, for every file set,
  path list, limit and flag; it is the cluster of a key of the grouping that recorded at
  least two locations; and the findings mirror the clusters one to one, each with a count
  of at least two.
\<close>

theorem C4_clusters_have_two_locations:
  "list_all (\<lambda>c. 2 \<le> length (locations c)) (fst (analyze E files script_paths limit same))
   \<and> set (fst (analyze E files script_paths limit same))
       \<subseteq> (\<lambda>(k, locs). \<lparr>hash = fst k, locations = locs\<rparr>) `
           {(k, locs). (k, locs) \<in> set (scan_scripts E files same
                                          (scan_sources E script_paths) [])
                       \<and> 2 \<le> length locs}
   \<and> map f_cluster (snd (analyze E files script_paths limit same))
       = fst (analyze E files script_paths limit same)
   \<and> list_all (\<lambda>f. 2 \<le> f_count f \<and> f_count f = length (locations (f_cluster f)))
       (snd (analyze E files script_paths limit same))"
proof -
  let ?cs = "fst (analyze E files script_paths limit same)"
  let ?g = "scan_scripts E files same (scan_sources E script_paths) []"
  have sub: "set ?cs \<subseteq> set (clusters_of ?g)" by (rule set_analyze_clusters)
  have big: "list_all (\<lambda>c. 2 \<le> length (locations c)) ?cs"
    using sub clusters_of_size [of ?g] by (auto simp: list_all_iff)
  have img: "set (clusters_of ?g)
      \<subseteq> (\<lambda>(k, locs). \<lparr>hash = fst k, locations = locs\<rparr>) `
           {(k, locs). (k, locs) \<in> set ?g \<and> 2 \<le> length locs}"
    by (auto simp: clusters_of_def image_iff)
  have fc: "map f_cluster (snd (analyze E files script_paths limit same)) = ?cs"
    unfolding analyze_findings by (simp add: comp_def)
  have fn: "list_all (\<lambda>f. 2 \<le> f_count f \<and> f_count f = length (locations (f_cluster f)))
       (snd (analyze E files script_paths limit same))"
    unfolding analyze_findings using big by (simp add: list_all_iff)
  show ?thesis using big sub img fc fn by blast
qed

theorem C4_clusters_have_two_locations_witness:
  "length (fst (analyze demo_env (demo_files long_text) None None True)) = 1
   \<and> list_all (\<lambda>c. 2 \<le> length (locations c))
       (fst (analyze demo_env (demo_files long_text) None None True))
   \<and> list_all (\<lambda>f. 2 \<le> f_count f \<and> f_count f = length (locations (f_cluster f)))
       (snd (analyze demo_env (demo_files long_text) None None True))"
proof -
  have "length (fst (analyze demo_env (demo_files long_text) None None True)) = 1"
    by code_simp
  then show ?thesis
    using C4_clusters_have_two_locations [of demo_env "demo_files long_text" None None True]
    by blast
qed

text \<open>
  C5. The grouping \<open>analyze\<close> builds is the grouping of the records whose fingerprint has
  at least 20 characters: a function with a shorter fingerprint adds no location to any
  key, the recorded locations are exactly those of the longer records, and when every
  function of every scanned script has a fingerprint below 20 characters there is no
  cluster and no finding, however many copies there are.
\<close>

theorem C5_short_fingerprints_excluded:
  "scan_scripts E files same sps [] = group_records E same (long_records E files sps) []
   \<and> set (concat (map snd (scan_scripts E files same sps [])))
       = record_loc ` set (long_records E files sps)
   \<and> (list_all (\<lambda>sp. list_all (\<lambda>(ln, nm, body). length body < 20)
                       (extract_functions E files sp)) (scan_sources E script_paths)
        \<longrightarrow> analyze E files script_paths limit same = ([], []))"
proof (intro conjI impI)
  show g: "scan_scripts E files same sps [] = group_records E same (long_records E files sps) []"
    by (rule scan_scripts_group)
  show "set (concat (map snd (scan_scripts E files same sps [])))
       = record_loc ` set (long_records E files sps)"
    unfolding g by (simp add: locs_group_records del: set_concat)
next
  assume short: "list_all (\<lambda>sp. list_all (\<lambda>(ln, nm, body). length body < 20)
                       (extract_functions E files sp)) (scan_sources E script_paths)"
  have "filter (\<lambda>(ln, nm, body). 20 \<le> length body) (extract_functions E files sp) = []"
    if "sp \<in> set (scan_sources E script_paths)" for sp
    using short that by (fastforce simp: list_all_iff filter_empty_conv)
  then have "long_records E files (scan_sources E script_paths) = []"
    by (simp add: long_records_def)
  then have "scan_scripts E files same (scan_sources E script_paths) [] = []"
    by (simp add: scan_scripts_group)
  then have "all_clusters E files script_paths same = []"
    by (simp add: all_clusters_def clusters_of_def sort_clusters_def)
  then have "fst (analyze E files script_paths limit same) = []"
    by (simp add: analyze_clusters split: option.split)
  then show "analyze E files script_paths limit same = ([], [])"
    using analyze_findings [of E files script_paths limit same] by (simp add: prod_eq_iff)
qed

theorem C5_short_fingerprints_excluded_witness:
  "list_all (\<lambda>sp. list_all (\<lambda>(ln, nm, body). length body < 20)
                    (extract_functions demo_env (demo_files foo_text) sp))
     (scan_sources demo_env None)
   \<and> extract_functions demo_env (demo_files foo_text) ''A.pushbutton/script.py''
       = [(1, ''foo'', ''def(2):return'')]
   \<and> analyze demo_env (demo_files foo_text) None None False = ([], [])"
proof -
  have s: "list_all (\<lambda>sp. list_all (\<lambda>(ln, nm, body). length body < 20)
                    (extract_functions demo_env (demo_files foo_text) sp))
     (scan_sources demo_env None)"
    by code_simp
  have r: "extract_functions demo_env (demo_files foo_text) ''A.pushbutton/script.py''
       = [(1, ''foo'', ''def(2):return'')]"
    by code_simp
  show ?thesis
    using s r C5_short_fingerprints_excluded [of demo_env "demo_files foo_text" False _ None
        None]
    by blast
qed

lemma sort_clusters_sorted:
  "sorted_wrt (\<lambda>a b. length (locations b) \<le> length (locations a)) (sort_clusters cs)"
proof -
  have "sorted (map (\<lambda>c. - int (length (locations c))) (sort_clusters cs))"
    unfolding sort_clusters_def by (rule sorted_sort_key)
  then show ?thesis by (simp add: sorted_map)
qed

lemma sort_clusters_stable:
  "filter (\<lambda>c. length (locations c) = n) (sort_clusters cs) =
     filter (\<lambda>c. length (locations c) = n) cs"
proof -
  have "filter (\<lambda>c. - int (length (locations c)) = - int n) (sort_clusters cs) =
      filter (\<lambda>c. - int (length (locations c)) = - int n) cs"
    unfolding sort_clusters_def by (rule sort_key_stable)
  then show ?thesis by simp
qed

lemma locations_clusters_of:
  "map locations (clusters_of g) = filter (\<lambda>locs. 2 \<le> length locs) (map snd g)"
  by (induction g) (auto simp: clusters_of_def)

text \<open>
  C6 (as amended). The clusters are sorted by falling location count; clusters of one
  count keep the order of the grouping, which is the order in which their keys were first
  met when the scripts are scanned in the order given and the functions of each script in
  the breadth-first order of \<open>ast.walk\<close>; a positive limit keeps the first \<open>limit\<close> clusters
  of that order (all of them when there are fewer), and no limit or a limit that is not
  positive keeps them all.
\<close>

theorem C6_sorted_stable_limited:
  "sorted_wrt (\<lambda>a b. length (locations b) \<le> length (locations a))
     (all_clusters E files script_paths same)
   \<and> filter (\<lambda>c. length (locations c) = n) (all_clusters E files script_paths same)
       = filter (\<lambda>c. length (locations c) = n)
           (clusters_of (scan_scripts E files same (scan_sources E script_paths) []))
   \<and> map locations (clusters_of (scan_scripts E files same (scan_sources E script_paths) []))
       = filter (\<lambda>locs. 2 \<le> length locs)
           (map snd (scan_scripts E files same (scan_sources E script_paths) []))
   \<and> map fst (scan_scripts E files same (scan_sources E script_paths) [])
       = first_seen (map (record_key E same)
           (long_records E files (scan_sources E script_paths)))
   \<and> fst (analyze E files script_paths limit same)
       = (case limit of
            None \<Rightarrow> all_clusters E files script_paths same
          | Some l \<Rightarrow> if 0 < l then take (nat l) (all_clusters E files script_paths same)
                      else all_clusters E files script_paths same)"
proof (intro conjI)
  show "sorted_wrt (\<lambda>a b. length (locations b) \<le> length (locations a))
     (all_clusters E files script_paths same)"
    unfolding all_clusters_def by (rule sort_clusters_sorted)
  show "filter (\<lambda>c. length (locations c) = n) (all_clusters E files script_paths same)
       = filter (\<lambda>c. length (locations c) = n)
           (clusters_of (scan_scripts E files same (scan_sources E script_paths) []))"
    unfolding all_clusters_def by (rule sort_clusters_stable)
  show "map locations (clusters_of (scan_scripts E files same (scan_sources E script_paths) []))
       = filter (\<lambda>locs. 2 \<le> length locs)
           (map snd (scan_scripts E files same (scan_sources E script_paths) []))"
    by (rule locations_clusters_of)
  show "map fst (scan_scripts E files same (scan_sources E script_paths) [])
       = first_seen (map (record_key E same)
           (long_records E files (scan_sources E script_paths)))"
    by (simp only: scan_scripts_group keys_group_records)
  show "fst (analyze E files script_paths limit same)
       = (case limit of
            None \<Rightarrow> all_clusters E files script_paths same
          | Some l \<Rightarrow> if 0 < l then take (nat l) (all_clusters E files script_paths same)
                      else all_clusters E files script_paths same)"
    by (rule analyze_clusters)
qed

theorem C6_sorted_stable_limited_witness:
  "map (\<lambda>c. map line (locations c))
     (fst (analyze demo_env (demo_files class_text) None (Some 1) False)) = [[Some 6, Some 6]]
   \<and> map (\<lambda>c. map line (locations c)) (all_clusters demo_env (demo_files class_text) None False)
       = [[Some 6, Some 6], [Some 2, Some 2]]"
proof -
  have a: "map (\<lambda>c. map line (locations c))
      (all_clusters demo_env (demo_files class_text) None False)
       = [[Some 6, Some 6], [Some 2, Some 2]]"
    by code_simp
  have "map (\<lambda>c. map line (locations c))
      (take (nat 1) (all_clusters demo_env (demo_files class_text) None False))
       = [[Some 6, Some 6]]"
    using a by (simp add: take_map [symmetric])
  then show ?thesis
    using a C6_sorted_stable_limited [of demo_env "demo_files class_text" None False _
        "Some 1"]
    by simp
qed

text \<open>
  Two scripts with a method \<open>m\<close> declared on line 2 inside a class and a function \<open>f\<close>
  declared on line 6: both clusters have two locations, and the cluster of \<open>f\<close> comes
  first, since \<open>ast.walk\<close> reaches the top-level \<open>f\<close> before the nested \<open>m\<close>.
\<close>

theorem C6_later_declaration_first:
  "map (\<lambda>c. map name (locations c))
     (fst (analyze demo_env (demo_files class_text) None None False))
     = [[Some ''f'', Some ''f''], [Some ''m'', Some ''m'']]
   \<and> map (\<lambda>c. map line (locations c))
     (fst (analyze demo_env (demo_files class_text) None None False))
     = [[Some 6, Some 6], [Some 2, Some 2]]"
  by code_simp

section \<open>Properties of the extraction engine\<close>

lemma import_scan_found:
  "list_ex (contains imp) lines \<Longrightarrow> import_scan imp lines i last_idx = None"
  by (induction lines arbitrary: i last_idx) auto

lemma import_scan_no_import:
  "\<not> list_ex (contains imp) lines \<Longrightarrow> \<not> list_ex is_import_line lines
     \<Longrightarrow> import_scan imp lines i last_idx = Some last_idx"
  by (induction lines arbitrary: i) auto

lemma import_scan_last:
  "\<not> list_ex (contains imp) (pre @ l # post) \<Longrightarrow> is_import_line l
     \<Longrightarrow> \<not> list_ex is_import_line post
     \<Longrightarrow> import_scan imp (pre @ l # post) i last_idx = Some (int (i + length pre))"
proof (induction pre arbitrary: i last_idx)
  case Nil
  then show ?case by (simp add: import_scan_no_import)
next
  case (Cons a pre)
  then show ?case by simp
qed

text \<open>
  C7 (as amended). \<open>_ensure_import\<close> leaves the lines as they are when one of them contains
  the stripped import statement; otherwise it puts the import line right after the last
  line of the file that, stripped, starts with \<open>import\<close> or \<open>from\<close> followed by a space,
  wherever that line stands, and in front of the first line when there is no such line.
  The edit patch of a script from which a function was removed holds the lines so
  completed.
\<close>

theorem C7_import_after_last_import_line:
  "(list_ex (contains (strip imp)) lines \<longrightarrow> ensure_import lines imp = lines)
   \<and> (\<not> list_ex (contains (strip imp)) lines \<and> \<not> list_ex is_import_line lines
        \<longrightarrow> ensure_import lines imp = imp # lines)
   \<and> (\<not> list_ex (contains (strip imp)) (pre @ l # post) \<and> is_import_line l
        \<and> \<not> list_ex is_import_line post
        \<longrightarrow> ensure_import (pre @ l # post) imp = pre @ [l, imp] @ post)
   \<and> (sp \<noteq> [] \<and> files (resolved (repo_root E) sp) = Some old_text
        \<and> remove_function_from_source E old_text nm ln \<noteq> old_text
        \<and> inside_repo (repo_root E) sp
        \<longrightarrow> map_sum id (\<lambda>(ps, exs). (map content ps, exs))
              (extract_locs E files md [\<lparr>script = Some sp, line = ln, name = nm\<rparr>] ([], []))
            = Inr ([Some (join_lines
                      (ensure_import
                         (splitlines (remove_function_from_source E old_text nm ln))
                         (''from '' @ replace ''.py'' [] (replace ''/'' ''.'' md)
                            @ '' import '' @ py_str nm)))],
                   [\<lparr>ex_function = nm, ex_script = sp, ex_module = md\<rparr>]))"
proof (intro conjI impI)
  assume "list_ex (contains (strip imp)) lines"
  then show "ensure_import lines imp = lines"
    by (simp add: ensure_import_def import_scan_found)
next
  assume "\<not> list_ex (contains (strip imp)) lines \<and> \<not> list_ex is_import_line lines"
  then show "ensure_import lines imp = imp # lines"
    by (simp add: ensure_import_def import_scan_no_import)
next
  assume "\<not> list_ex (contains (strip imp)) (pre @ l # post) \<and> is_import_line l
        \<and> \<not> list_ex is_import_line post"
  then have "import_scan (strip imp) (pre @ l # post) 0 (- 1) = Some (int (length pre))"
    using import_scan_last [of "strip imp" pre l post 0 "- 1"] by simp
  then show "ensure_import (pre @ l # post) imp = pre @ [l, imp] @ post"
    by (simp add: ensure_import_def nat_add_distrib)
next
  assume "sp \<noteq> [] \<and> files (resolved (repo_root E) sp) = Some old_text
        \<and> remove_function_from_source E old_text nm ln \<noteq> old_text
        \<and> inside_repo (repo_root E) sp"
  then show "map_sum id (\<lambda>(ps, exs). (map content ps, exs))
              (extract_locs E files md [\<lparr>script = Some sp, line = ln, name = nm\<rparr>] ([], []))
            = Inr ([Some (join_lines
                      (ensure_import
                         (splitlines (remove_function_from_source E old_text nm ln))
                         (''from '' @ replace ''.py'' [] (replace ''/'' ''.'' md)
                            @ '' import '' @ py_str nm)))],
                   [\<lparr>ex_function = nm, ex_script = sp, ex_module = md\<rparr>])"
    by (simp add: Let_def create_edit_patch_def)
qed

theorem C7_import_after_last_import_line_witness:
  "ensure_import [''import os'', ''from lib.utils import foo'', ''x = 1'']
       ''from lib.utils import foo''
     = [''import os'', ''from lib.utils import foo'', ''x = 1'']
   \<and> ensure_import [''x = 1'', ''y = 2''] ''from lib.utils import foo''
     = [''from lib.utils import foo'', ''x = 1'', ''y = 2'']
   \<and> ensure_import ([''# tool''] @ ''import os'' # [''x = 1'']) ''from lib.utils import foo''
     = [''# tool''] @ [''import os'', ''from lib.utils import foo''] @ [''x = 1'']
   \<and> map_sum id (\<lambda>(ps, exs). (map content ps, exs))
       (extract_locs demo_env (demo_files long_text) ''lib/utils.py''
          [\<lparr>script = Some ''A.pushbutton/script.py'', line = Some 2, name = Some ''foo''\<rparr>]
          ([], []))
     = Inr ([Some (''import os'' @ nl @ ''from lib.utils import foo'' @ nl
                    @ ''print(foo(1, 2))'' @ nl)],
            [\<lparr>ex_function = Some ''foo'', ex_script = ''A.pushbutton/script.py'',
               ex_module = ''lib/utils.py''\<rparr>])"
proof -
  have 1: "list_ex (contains (strip ''from lib.utils import foo''))
      [''import os'', ''from lib.utils import foo'', ''x = 1'']"
    by code_simp
  have 2: "\<not> list_ex (contains (strip ''from lib.utils import foo'')) [''x = 1'', ''y = 2'']
      \<and> \<not> list_ex is_import_line [''x = 1'', ''y = 2'']"
    by code_simp
  have 3: "\<not> list_ex (contains (strip ''from lib.utils import foo''))
        ([''# tool''] @ ''import os'' # [''x = 1''])
      \<and> is_import_line ''import os'' \<and> \<not> list_ex is_import_line [''x = 1'']"
    by code_simp
  have w1: "ensure_import [''import os'', ''from lib.utils import foo'', ''x = 1'']
       ''from lib.utils import foo''
     = [''import os'', ''from lib.utils import foo'', ''x = 1'']"
    by (rule C7_import_after_last_import_line [THEN conjunct1, rule_format, OF 1])
  have w2: "ensure_import [''x = 1'', ''y = 2''] ''from lib.utils import foo''
     = [''from lib.utils import foo'', ''x = 1'', ''y = 2'']"
    by (rule C7_import_after_last_import_line
        [THEN conjunct2, THEN conjunct1, rule_format, OF 2])
  have w3: "ensure_import ([''# tool''] @ ''import os'' # [''x = 1''])
       ''from lib.utils import foo''
     = [''# tool''] @ [''import os'', ''from lib.utils import foo''] @ [''x = 1'']"
    by (rule C7_import_after_last_import_line
        [THEN conjunct2, THEN conjunct2, THEN conjunct1, rule_format, OF 3])
  have 4: "''A.pushbutton/script.py'' \<noteq> []
      \<and> demo_files long_text (resolved (repo_root demo_env) ''A.pushbutton/script.py'')
          = Some long_text
      \<and> remove_function_from_source demo_env long_text (Some ''foo'') (Some 2) \<noteq> long_text
      \<and> inside_repo (repo_root demo_env) ''A.pushbutton/script.py''"
    by code_simp
  have e: "join_lines
       (ensure_import
          (splitlines (remove_function_from_source demo_env long_text (Some ''foo'') (Some 2)))
          (''from '' @ replace ''.py'' [] (replace ''/'' ''.'' ''lib/utils.py'')
             @ '' import '' @ py_str (Some ''foo'')))
      = ''import os'' @ nl @ ''from lib.utils import foo'' @ nl @ ''print(foo(1, 2))'' @ nl"
    by code_simp
  have w4: "map_sum id (\<lambda>(ps, exs). (map content ps, exs))
       (extract_locs demo_env (demo_files long_text) ''lib/utils.py''
          [\<lparr>script = Some ''A.pushbutton/script.py'', line = Some 2, name = Some ''foo''\<rparr>]
          ([], []))
     = Inr ([Some (''import os'' @ nl @ ''from lib.utils import foo'' @ nl
                    @ ''print(foo(1, 2))'' @ nl)],
            [\<lparr>ex_function = Some ''foo'', ex_script = ''A.pushbutton/script.py'',
               ex_module = ''lib/utils.py''\<rparr>])"
    unfolding e [symmetric]
    by (rule C7_import_after_last_import_line
        [where E = demo_env and files = "demo_files long_text"
           and sp = "''A.pushbutton/script.py''" and old_text = long_text
           and nm = "Some ''foo''" and ln = "Some 2" and md = "''lib/utils.py''",
         THEN conjunct2, THEN conjunct2, THEN conjunct2, rule_format, OF 4])
  show ?thesis
    using w1 w2 w3 w4 by (intro conjI)
qed

text \<open>
  A script with an import at the top and another inside a function: the new import line
  lands inside the function, after the last import line of the file, and not after the
  last import line at the top.
\<close>

theorem C7_import_lands_inside_function:
  "ensure_import [''import os'', ''def g():'', ''    import sys'', ''    return 1'']
       ''from lib.utils import foo''
     = [''import os'', ''def g():'', ''    import sys'', ''from lib.utils import foo'',
        ''    return 1'']"
  by code_simp

lemma remdups_names_length:
  "1 < length (remdups (map name locs)) \<Longrightarrow> \<not> length locs < 2"
  using length_remdups_leq [of "map name locs"] by simp

lemma extract_clusters_mixed:
  assumes sel: "case ci of None \<Rightarrow> True | Some sel \<Rightarrow> int idx \<in> set sel"
    and mixed: "1 < length (remdups (map name (locations c)))"
    and named: "None \<notin> set (map name (locations c))"
  shows "extract_clusters E files ci m idx (c # cs) (sps, exs, errs, libs) =
     extract_clusters E files ci m (Suc idx) cs
       (sps, exs,
        errs @ [MixedNames idx (sort (map the (remdups (map name (locations c)))))], libs)"
proof -
  have s: "\<not> (case ci of None \<Rightarrow> False | Some sel \<Rightarrow> int idx \<notin> set sel)"
    using sel by (cases ci) auto
  have l: "\<not> length (locations c) < 2"
    using mixed by (rule remdups_names_length)
  have n: "None \<notin> set (remdups (map name (locations c)))"
    using named by simp
  show ?thesis
    by (subst extract_clusters.simps) (simp only: s l mixed n Let_def if_True if_False)
qed

text \<open>
  A cluster that is selected for extraction (no index list given, or its index in the
  list), whose locations all carry a name and carry two or more distinct names, adds
  exactly one error, which lists those names, and leaves the patches, the extracted
  entries and the library sources as they were; the loop goes on with the next cluster.
  Given alone, such a cluster makes the engine return no patch, no extracted entry and
  that one error, in both modes, with no file changed.
\<close>

lemma named_mixed_cluster_rejected:
  "((case ci of None \<Rightarrow> True | Some sel \<Rightarrow> int idx \<in> set sel)
      \<and> 1 < length (remdups (map name (locations c)))
      \<and> None \<notin> set (map name (locations c))
      \<longrightarrow> extract_clusters E files ci m idx (c # cs) (sps, exs, errs, libs) =
            extract_clusters E files ci m (Suc idx) cs
              (sps, exs,
               errs @ [MixedNames idx (sort (map the (remdups (map name (locations c)))))],
               libs)
          \<and> set (sort (map the (remdups (map name (locations c)))))
              = the ` set (map name (locations c)))
   \<and> (1 < length (remdups (map name (locations c)))
      \<and> None \<notin> set (map name (locations c))
      \<longrightarrow> extract_engine E files (Some [c]) None mode same =
            Inr (files,
                 \<lparr>patches = [], extracted = [],
                  errors = [MixedNames 0
                              (sort (map the (remdups (map name (locations c)))))]\<rparr>))"
proof (intro conjI impI)
  assume a: "(case ci of None \<Rightarrow> True | Some sel \<Rightarrow> int idx \<in> set sel)
      \<and> 1 < length (remdups (map name (locations c)))
      \<and> None \<notin> set (map name (locations c))"
  then show "extract_clusters E files ci m idx (c # cs) (sps, exs, errs, libs) =
            extract_clusters E files ci m (Suc idx) cs
              (sps, exs,
               errs @ [MixedNames idx (sort (map the (remdups (map name (locations c)))))],
               libs)"
    by (intro extract_clusters_mixed) simp_all
  show "set (sort (map the (remdups (map name (locations c)))))
              = the ` set (map name (locations c))"
    by simp
next
  assume a: "1 < length (remdups (map name (locations c)))
      \<and> None \<notin> set (map name (locations c))"
  have "extract_clusters E files None m 0 [c] ([], [], [], []) =
      Inr ([], [], [MixedNames 0 (sort (map the (remdups (map name (locations c)))))], [])"
    for m
    using a extract_clusters_mixed [where ci = None and idx = 0 and c = c and E = E
        and files = files and m = m and cs = "[]" and sps = "[]" and exs = "[]"
        and errs = "[]" and libs = "[]"]
    by simp
  then show "extract_engine E files (Some [c]) None mode same =
            Inr (files,
                 \<lparr>patches = [], extracted = [],
                  errors = [MixedNames 0
                              (sort (map the (remdups (map name (locations c)))))]\<rparr>)"
    by (simp add: extract_engine_def Let_def apply_patches_def)
qed

lemma named_mixed_cluster_rejected_example:
  "map_sum id snd
     (extract_engine demo_env Map.empty
        (Some [\<lparr>hash = ''624a3fe7d65d39d5'',
                 locations =
                   [\<lparr>script = Some ''A.pushbutton/script.py'', line = Some 1,
                      name = Some ''foo''\<rparr>,
                    \<lparr>script = Some ''B.pushbutton/script.py'', line = Some 5,
                      name = Some ''bar''\<rparr>]\<rparr>])
        None ''write'' False)
   = Inr \<lparr>patches = [], extracted = [], errors = [MixedNames 0 [''bar'', ''foo'']]\<rparr>"
proof -
  let ?c = "\<lparr>hash = ''624a3fe7d65d39d5'',
                 locations =
                   [\<lparr>script = Some ''A.pushbutton/script.py'', line = Some 1,
                      name = Some ''foo''\<rparr>,
                    \<lparr>script = Some ''B.pushbutton/script.py'', line = Some 5,
                      name = Some ''bar''\<rparr>]\<rparr>"
  have h: "1 < length (remdups (map name (locations ?c)))
      \<and> None \<notin> set (map name (locations ?c))"
    by simp
  have s: "sort (map the (remdups (map name (locations ?c)))) = [''bar'', ''foo'']"
    by code_simp
  have "extract_engine demo_env Map.empty (Some [?c]) None ''write'' False =
      Inr (Map.empty,
           \<lparr>patches = [], extracted = [],
            errors = [MixedNames 0 (sort (map the (remdups (map name (locations ?c)))))]\<rparr>)"
    by (rule named_mixed_cluster_rejected
        [where c = ?c and E = demo_env and files = Map.empty and mode = "''write''"
           and same = False,
         THEN conjunct2, rule_format, OF h])
  then show ?thesis
    by (simp only: s map_sum.simps snd_conv)
qed

text \<open>
  C3. A cluster whose locations carry the names \<open>foo\<close> and \<open>bar\<close> and a third location
  without a name has the set of names \<open>{'foo', 'bar', None}\<close>. Building the error message
  sorts that set, the comparison of \<open>None\<close> with a string raises \<open>TypeError\<close>, and the
  exception leaves \<open>extract\<close>: the call returns no result, so no error is recorded for the
  cluster and the cluster after it, which holds two copies of \<open>foo\<close>, is never processed.
  Without the third location the same call records the one error for the first cluster
  and goes on to extract the second.
\<close>

theorem C3_missing_name_raises:
  "map_sum id snd
     (extract_engine demo_env (demo_files plain_text)
     (Some [\<lparr>hash = ''624a3fe7d65d39d5'',
              locations =
                [\<lparr>script = Some ''A.pushbutton/script.py'', line = Some 1,
                   name = Some ''foo''\<rparr>,
                 \<lparr>script = Some ''B.pushbutton/script.py'', line = Some 5,
                   name = Some ''bar''\<rparr>,
                 \<lparr>script = Some ''C.pushbutton/script.py'', line = Some 9,
                   name = None\<rparr>]\<rparr>,
            \<lparr>hash = ''624a3fe7d65d39d5'',
              locations =
                [\<lparr>script = Some ''A.pushbutton/script.py'', line = Some 1,
                   name = Some ''foo''\<rparr>,
                 \<lparr>script = Some ''B.pushbutton/script.py'', line = Some 1,
                   name = Some ''foo''\<rparr>]\<rparr>])
     None ''dry_run'' True)
   = Inl TypeError
   \<and> map_sum id (\<lambda>(f, r). (map summary (patches r), length (extracted r), errors r))
       (extract_engine demo_env (demo_files plain_text)
          (Some [\<lparr>hash = ''624a3fe7d65d39d5'',
                   locations =
                     [\<lparr>script = Some ''A.pushbutton/script.py'', line = Some 1,
                        name = Some ''foo''\<rparr>,
                      \<lparr>script = Some ''B.pushbutton/script.py'', line = Some 5,
                        name = Some ''bar''\<rparr>]\<rparr>,
                 \<lparr>hash = ''624a3fe7d65d39d5'',
                   locations =
                     [\<lparr>script = Some ''A.pushbutton/script.py'', line = Some 1,
                        name = Some ''foo''\<rparr>,
                      \<lparr>script = Some ''B.pushbutton/script.py'', line = Some 1,
                        name = Some ''foo''\<rparr>]\<rparr>])
          None ''dry_run'' True)
     = Inr ([''Add lib/utils.py'', ''Edit A.pushbutton/script.py'',
             ''Edit B.pushbutton/script.py''],
            2, [MixedNames 0 [''bar'', ''foo'']])"
  by code_simp

lemma extract_clusters_canonical:
  assumes sel: "case ci of None \<Rightarrow> True | Some sel \<Rightarrow> int idx \<in> set sel"
    and locs: "locations c = first # second # rest"
    and same: "length (remdups (map name (locations c))) \<le> 1"
    and sp: "script first = Some first_script" "first_script \<noteq> []"
    and ln: "line first = Some first_line" "first_line \<noteq> 0"
    and src: "get_function_source E files first_script
                (case name first of None \<Rightarrow> ''?'' | Some n \<Rightarrow> n) first_line = Some src"
      "src \<noteq> []"
  shows "extract_clusters E files ci m idx (c # cs) (sps, exs, errs, libs) =
     (case extract_locs E files
             (mapping_get m (case name first of None \<Rightarrow> ''?'' | Some n \<Rightarrow> n))
             (locations c) (sps, exs) of
        Inl err \<Rightarrow> Inl err
      | Inr (sps', exs') \<Rightarrow>
          extract_clusters E files ci m (Suc idx) cs
            (sps', exs', errs,
             setdefault_append
               (mapping_get m (case name first of None \<Rightarrow> ''?'' | Some n \<Rightarrow> n))
               src libs))"
proof -
  have s: "\<not> (case ci of None \<Rightarrow> False | Some sel \<Rightarrow> int idx \<notin> set sel)"
    using sel by (cases ci) auto
  have l: "\<not> length (locations c) < 2"
    by (simp add: locs)
  have n: "\<not> 1 < length (remdups (map name (locations c)))"
    using same by simp
  show ?thesis
    apply (subst extract_clusters.simps)
    apply (simp only: s l n Let_def if_False)
    apply (simp only: locs list.case sp ln src option.case prod.case if_False simp_thms)
    done
qed

text \<open>
  C10. In the location loop of the extraction, a location whose script is not on disk, or
  whose text the removal leaves as it is, is passed over: the loop goes on with the
  patches and the extracted entries it had. The loop has no access to \<open>errors\<close>: a
  cluster whose canonical location yields its source hands the error list on unchanged,
  whatever happens at its locations.
\<close>

theorem C10_unmatched_location_skipped:
  "(script loc = Some sp
      \<and> (files (resolved (repo_root E) sp) = None
          \<or> files (resolved (repo_root E) sp) = Some old_text
            \<and> remove_function_from_source E old_text (name loc) (line loc) = old_text)
      \<longrightarrow> extract_locs E files md (loc # locs) (sps, exs)
            = extract_locs E files md locs (sps, exs))
   \<and> ((case ci of None \<Rightarrow> True | Some sel \<Rightarrow> int idx \<in> set sel)
      \<and> locations c = first # second # rest
      \<and> length (remdups (map name (locations c))) \<le> 1
      \<and> script first = Some first_script \<and> first_script \<noteq> [] \<and> line first = Some first_line \<and> first_line \<noteq> 0
      \<and> get_function_source E files first_script
            (case name first of None \<Rightarrow> ''?'' | Some n \<Rightarrow> n) first_line = Some src
      \<and> src \<noteq> []
      \<longrightarrow> extract_clusters E files ci m idx (c # cs) (sps, exs, errs, libs) =
            (case extract_locs E files
                    (mapping_get m (case name first of None \<Rightarrow> ''?'' | Some n \<Rightarrow> n))
                    (locations c) (sps, exs) of
               Inl err \<Rightarrow> Inl err
             | Inr (sps', exs') \<Rightarrow>
                 extract_clusters E files ci m (Suc idx) cs
                   (sps', exs', errs,
                    setdefault_append
                      (mapping_get m (case name first of None \<Rightarrow> ''?'' | Some n \<Rightarrow> n))
                      src libs)))"
proof (intro conjI impI)
  assume "script loc = Some sp
      \<and> (files (resolved (repo_root E) sp) = None
          \<or> files (resolved (repo_root E) sp) = Some old_text
            \<and> remove_function_from_source E old_text (name loc) (line loc) = old_text)"
  then show "extract_locs E files md (loc # locs) (sps, exs)
            = extract_locs E files md locs (sps, exs)"
    by (auto simp: Let_def)
next
  assume a: "(case ci of None \<Rightarrow> True | Some sel \<Rightarrow> int idx \<in> set sel)
      \<and> locations c = first # second # rest
      \<and> length (remdups (map name (locations c))) \<le> 1
      \<and> script first = Some first_script \<and> first_script \<noteq> [] \<and> line first = Some first_line \<and> first_line \<noteq> 0
      \<and> get_function_source E files first_script
            (case name first of None \<Rightarrow> ''?'' | Some n \<Rightarrow> n) first_line = Some src
      \<and> src \<noteq> []"
  show "extract_clusters E files ci m idx (c # cs) (sps, exs, errs, libs) =
            (case extract_locs E files
                    (mapping_get m (case name first of None \<Rightarrow> ''?'' | Some n \<Rightarrow> n))
                    (locations c) (sps, exs) of
               Inl err \<Rightarrow> Inl err
             | Inr (sps', exs') \<Rightarrow>
                 extract_clusters E files ci m (Suc idx) cs
                   (sps', exs', errs,
                    setdefault_append
                      (mapping_get m (case name first of None \<Rightarrow> ''?'' | Some n \<Rightarrow> n))
                      src libs))"
    by (rule extract_clusters_canonical) (use a in \<open>blast+\<close>)
qed

theorem C10_unmatched_location_skipped_witness:
  "extract_locs demo_env [[''repo'', ''A.pushbutton'', ''script.py''] \<mapsto> long_text]
       ''lib/utils.py''
       [\<lparr>script = Some ''B.pushbutton/script.py'', line = Some 2, name = Some ''foo''\<rparr>]
       ([], [])
     = Inr ([], [])
   \<and> extract_locs demo_env [[''repo'', ''A.pushbutton'', ''script.py''] \<mapsto> long_text]
       ''lib/utils.py''
       [\<lparr>script = Some ''A.pushbutton/script.py'', line = Some 7, name = Some ''foo''\<rparr>]
       ([], [])
     = Inr ([], [])
   \<and> map_sum id (\<lambda>(sps, exs, errs, libs). (map path sps, map ex_script exs, errs))
       (extract_clusters demo_env [[''repo'', ''A.pushbutton'', ''script.py''] \<mapsto> long_text]
          None [] 0
          [\<lparr>hash = ''624a3fe7d65d39d5'',
            locations =
              [\<lparr>script = Some ''A.pushbutton/script.py'', line = Some 2,
                 name = Some ''foo''\<rparr>,
               \<lparr>script = Some ''B.pushbutton/script.py'', line = Some 2,
                 name = Some ''foo''\<rparr>]\<rparr>]
          ([], [], [], []))
     = Inr ([''A.pushbutton/script.py''], [''A.pushbutton/script.py''], [])"
proof -
  let ?files = "[[''repo'', ''A.pushbutton'', ''script.py''] \<mapsto> long_text]"
  let ?a = "\<lparr>script = Some ''A.pushbutton/script.py'', line = Some 2, name = Some ''foo''\<rparr>"
  let ?b = "\<lparr>script = Some ''B.pushbutton/script.py'', line = Some 2, name = Some ''foo''\<rparr>"
  let ?a7 = "\<lparr>script = Some ''A.pushbutton/script.py'', line = Some 7, name = Some ''foo''\<rparr>"
  let ?c = "\<lparr>hash = ''624a3fe7d65d39d5'', locations = [?a, ?b]\<rparr>"
  let ?src = "''def foo(a, b):'' @ nl @ ''    x = a'' @ nl @ ''    y = b'' @ nl
     @ ''    return x + y''"
  have h1: "script ?b = Some ''B.pushbutton/script.py''
      \<and> (?files (resolved (repo_root demo_env) ''B.pushbutton/script.py'') = None
          \<or> ?files (resolved (repo_root demo_env) ''B.pushbutton/script.py'') = Some long_text
            \<and> remove_function_from_source demo_env long_text (name ?b) (line ?b) = long_text)"
    by code_simp
  have h2: "script ?a7 = Some ''A.pushbutton/script.py''
      \<and> (?files (resolved (repo_root demo_env) ''A.pushbutton/script.py'') = None
          \<or> ?files (resolved (repo_root demo_env) ''A.pushbutton/script.py'') = Some long_text
            \<and> remove_function_from_source demo_env long_text (name ?a7) (line ?a7)
                = long_text)"
    by code_simp
  have h3: "(case None of None \<Rightarrow> True | Some sel \<Rightarrow> int 0 \<in> set sel)
      \<and> locations ?c = ?a # ?b # []
      \<and> length (remdups (map name (locations ?c))) \<le> 1
      \<and> script ?a = Some ''A.pushbutton/script.py'' \<and> ''A.pushbutton/script.py'' \<noteq> []
      \<and> line ?a = Some 2 \<and> (2 :: int) \<noteq> 0
      \<and> get_function_source demo_env ?files ''A.pushbutton/script.py''
            (case name ?a of None \<Rightarrow> ''?'' | Some n \<Rightarrow> n) 2 = Some ?src
      \<and> ?src \<noteq> []"
    by code_simp
  have w1: "extract_locs demo_env ?files ''lib/utils.py'' (?b # []) ([], [])
      = extract_locs demo_env ?files ''lib/utils.py'' [] ([], [])"
    by (rule C10_unmatched_location_skipped
        [where loc = ?b and E = demo_env and files = ?files and old_text = long_text,
         THEN conjunct1, rule_format, OF h1])
  have w2: "extract_locs demo_env ?files ''lib/utils.py'' (?a7 # []) ([], [])
      = extract_locs demo_env ?files ''lib/utils.py'' [] ([], [])"
    by (rule C10_unmatched_location_skipped
        [where loc = ?a7 and E = demo_env and files = ?files and old_text = long_text,
         THEN conjunct1, rule_format, OF h2])
  have t3: "extract_clusters demo_env ?files None [] 0 (?c # []) ([], [], [], []) =
      (case extract_locs demo_env ?files
              (mapping_get [] (case name ?a of None \<Rightarrow> ''?'' | Some n \<Rightarrow> n))
              (locations ?c) ([], []) of
         Inl err \<Rightarrow> Inl err
       | Inr (sps', exs') \<Rightarrow>
           extract_clusters demo_env ?files None [] (Suc 0) []
             (sps', exs', [],
              setdefault_append
                (mapping_get [] (case name ?a of None \<Rightarrow> ''?'' | Some n \<Rightarrow> n))
                ?src []))"
    by (rule C10_unmatched_location_skipped
        [where E = demo_env and files = ?files and ci = None and idx = 0 and c = ?c
           and first = ?a and second = ?b and rest = "[]"
           and first_script = "''A.pushbutton/script.py''" and first_line = 2 and src = ?src,
         THEN conjunct2, rule_format, OF h3])
  have e3: "map_sum id (\<lambda>(sps, exs, errs, libs). (map path sps, map ex_script exs, errs))
      (case extract_locs demo_env ?files
              (mapping_get [] (case name ?a of None \<Rightarrow> ''?'' | Some n \<Rightarrow> n))
              (locations ?c) ([], []) of
         Inl err \<Rightarrow> Inl err
       | Inr (sps', exs') \<Rightarrow>
           extract_clusters demo_env ?files None [] (Suc 0) []
             (sps', exs', [],
              setdefault_append
                (mapping_get [] (case name ?a of None \<Rightarrow> ''?'' | Some n \<Rightarrow> n))
                ?src []))
      = Inr ([''A.pushbutton/script.py''], [''A.pushbutton/script.py''], [])"
    by code_simp
  have w3: "map_sum id (\<lambda>(sps, exs, errs, libs). (map path sps, map ex_script exs, errs))
      (extract_clusters demo_env ?files None [] 0 [?c] ([], [], [], []))
      = Inr ([''A.pushbutton/script.py''], [''A.pushbutton/script.py''], [])"
    by (simp only: t3 e3)
  show ?thesis
    using w1 w2 w3 by (simp only: extract_locs.simps simp_thms)
qed

lemma analyze_all_short:
  assumes "list_all (\<lambda>sp. list_all (\<lambda>(ln, nm, body). length body < 20)
                       (extract_functions E files sp)) (scan_sources E script_paths)"
  shows "analyze E files script_paths limit same = ([], [])"
proof -
  have "filter (\<lambda>(ln, nm, body). 20 \<le> length body) (extract_functions E files sp) = []"
    if "sp \<in> set (scan_sources E script_paths)" for sp
    using assms that by (fastforce simp: list_all_iff filter_empty_conv)
  then have "long_records E files (scan_sources E script_paths) = []"
    by (simp add: long_records_def)
  then have "scan_scripts E files same (scan_sources E script_paths) [] = []"
    by (simp add: scan_scripts_group)
  then have "all_clusters E files script_paths same = []"
    by (simp add: all_clusters_def clusters_of_def sort_clusters_def)
  then have "fst (analyze E files script_paths limit same) = []"
    by (simp add: analyze_clusters split: option.split)
  then show ?thesis
    using analyze_findings [of E files script_paths limit same] by (simp add: prod_eq_iff)
qed

lemma extract_engine_no_clusters:
  assumes "analyze E files None None same = ([], [])"
  shows "extract_engine E files None ci mode same =
     Inr (files, \<lparr>patches = [], extracted = [], errors = []\<rparr>)"
  using assms by (simp add: extract_engine_def Let_def apply_patches_def)

lemma one_line_foo_records:
  assumes "files (resolved (repo_root E) sp) = Some t"
    and "parse E t = Some [FunctionDef ''foo'' 2 [Return] l e]"
  shows "extract_functions E files sp = [(l, ''foo'', ''def(2):return'')]"
proof -
  have "str_of_nat 2 = ''2''" by code_simp
  then show ?thesis
    using assms by (simp add: extract_functions_def)
qed

lemma module_path_inside: "inside_repo root (choose_module scripts)"
proof -
  have "resolved root (choose_module scripts) = root @ path_parts (choose_module scripts)"
    by (simp add: choose_module_def resolved_def is_absolute_def path_parts_def)
  then show ?thesis
    unfolding inside_repo_def by (intro prefix_path_str) simp
qed

lemma create_edit_patch_inside:
  "inside_repo root sp \<Longrightarrow>
     \<exists>p. create_edit_patch root sp old new r = Inr p \<and> path p = sp
       \<and> summary p = ''Edit '' @ sp \<and> risk p = r \<and> content p = Some new"
  by (simp add: create_edit_patch_def)

lemma create_add_file_patch_inside:
  "inside_repo root sp \<Longrightarrow>
     \<exists>p. create_add_file_patch root sp new r = Inr p \<and> path p = sp
       \<and> summary p = ''Add '' @ sp \<and> risk p = r \<and> content p = Some new"
  by (simp add: create_add_file_patch_def)

lemma extract_locs_step:
  assumes "script loc = Some sp" "sp \<noteq> []"
    and "files (resolved (repo_root E) sp) = Some t"
    and "remove_function_from_source E t (name loc) (line loc) \<noteq> t"
    and "inside_repo (repo_root E) sp"
  shows "\<exists>p. path p = sp \<and> summary p = ''Edit '' @ sp \<and> risk p = ''high''
     \<and> extract_locs E files md (loc # locs) (sps, exs) =
         extract_locs E files md locs
           (sps @ [p], exs @ [\<lparr>ex_function = name loc, ex_script = sp, ex_module = md\<rparr>])"
proof -
  let ?new = "join_lines
     (ensure_import (splitlines (remove_function_from_source E t (name loc) (line loc)))
        (''from '' @ replace ''.py'' [] (replace ''/'' ''.'' md) @ '' import ''
           @ py_str (name loc)))"
  obtain p where p: "create_edit_patch (repo_root E) sp t ?new ''high'' = Inr p"
    "path p = sp" "summary p = ''Edit '' @ sp" "risk p = ''high''"
    using create_edit_patch_inside [OF assms(5), of t ?new "''high''"] by blast
  have "extract_locs E files md (loc # locs) (sps, exs) =
      extract_locs E files md locs
        (sps @ [p], exs @ [\<lparr>ex_function = name loc, ex_script = sp, ex_module = md\<rparr>])"
    using assms(1-4) p(1) by (simp add: Let_def)
  then show ?thesis using p by blast
qed

lemma analyze_two_copies:
  assumes "py_files E = [sa, sb]"
    and "extract_functions E files sa = [(la, nm, fp)]"
    and "extract_functions E files sb = [(lb, nm, fp)]"
    and "20 \<le> length fp"
  shows "analyze E files None None True =
     ([\<lparr>hash = hash_body E fp,
        locations = [\<lparr>script = Some sa, line = Some la, name = Some nm\<rparr>,
                     \<lparr>script = Some sb, line = Some lb, name = Some nm\<rparr>]\<rparr>],
      [\<lparr>f_type = ''duplicate'',
        f_cluster = \<lparr>hash = hash_body E fp,
          locations = [\<lparr>script = Some sa, line = Some la, name = Some nm\<rparr>,
                       \<lparr>script = Some sb, line = Some lb, name = Some nm\<rparr>]\<rparr>,
        f_count = 2\<rparr>])"
  using assms by (simp add: analyze_def Let_def clusters_of_def sort_clusters_def)

lemma mapping_of_one_cluster:
  "mapping_get
     (mapping (propose E files
        (Some [\<lparr>hash = h,
                 locations = [\<lparr>script = Some sa, line = Some la, name = Some nm\<rparr>,
                              \<lparr>script = Some sb, line = Some lb, name = Some nm\<rparr>]\<rparr>])
        False)) nm
   = choose_module [sa, sb]"
  by (simp add: propose_def Let_def mapping_get_def)

text \<open>
  C2 (as amended). Take an inventory of exactly two scripts inside the root, each holding
  exactly one function definition, the two with the same name and the same fingerprint of
  at least 20 characters, the first copy numbered from a line other than 0 with source lines
  that are not blank, the removal changing the text of both scripts, and no file yet at
  the module path the proposer chooses from the two script paths. Then \<open>analyze\<close> with
  \<open>same_name_only\<close> returns exactly one cluster, with the two locations, and the extraction
  under a mode other than \<open>write\<close> returns exactly three patches (the module added, then
  the two scripts edited), two extracted entries and no error, and changes no file. When
  every script of the inventory is the module \<open>def foo(a, b): return a+b\<close> (fingerprint
  \<open>def(2):return\<close>, 13 characters), there is no cluster, no patch, no extracted entry and
  no error.
\<close>

theorem C2_two_copies_scenario:
  "(py_files E = [sa, sb] \<and> sa \<noteq> [] \<and> sb \<noteq> []
      \<and> inside_repo (repo_root E) sa \<and> inside_repo (repo_root E) sb
      \<and> files (resolved (repo_root E) sa) = Some ta
      \<and> files (resolved (repo_root E) sb) = Some tb
      \<and> extract_functions E files sa = [(la, nm, fp)]
      \<and> extract_functions E files sb = [(lb, nm, fp)]
      \<and> 20 \<le> length fp \<and> la \<noteq> 0
      \<and> get_function_source E files sa nm la = Some src \<and> strip src \<noteq> []
      \<and> remove_function_from_source E ta (Some nm) (Some la) \<noteq> ta
      \<and> remove_function_from_source E tb (Some nm) (Some lb) \<noteq> tb
      \<and> files (resolved (repo_root E) (choose_module [sa, sb])) = None
      \<and> mode \<noteq> ''write''
      \<longrightarrow> map locations (fst (analyze E files None None True))
            = [[\<lparr>script = Some sa, line = Some la, name = Some nm\<rparr>,
                \<lparr>script = Some sb, line = Some lb, name = Some nm\<rparr>]]
          \<and> map_sum id (\<lambda>(f, r). (map path (patches r), map summary (patches r),
                                    map risk (patches r), extracted r, errors r))
              (extract_engine E files None None mode True)
            = Inr ([choose_module [sa, sb], sa, sb],
                   [''Add '' @ choose_module [sa, sb], ''Edit '' @ sa, ''Edit '' @ sb],
                   [''medium'', ''high'', ''high''],
                   [\<lparr>ex_function = Some nm, ex_script = sa,
                      ex_module = choose_module [sa, sb]\<rparr>,
                    \<lparr>ex_function = Some nm, ex_script = sb,
                      ex_module = choose_module [sa, sb]\<rparr>],
                   [])
          \<and> map_sum id fst (extract_engine E files None None mode True) = Inr files)
   \<and> (list_all (\<lambda>sp. \<exists>t l e. files (resolved (repo_root E) sp) = Some t
                          \<and> parse E t = Some [FunctionDef ''foo'' 2 [Return] l e])
          (py_files E)
      \<longrightarrow> analyze E files None None True = ([], [])
          \<and> extract_engine E files None None mode True
              = Inr (files, \<lparr>patches = [], extracted = [], errors = []\<rparr>))"
proof (intro conjI impI)
  assume short: "list_all (\<lambda>sp. \<exists>t l e. files (resolved (repo_root E) sp) = Some t
                          \<and> parse E t = Some [FunctionDef ''foo'' 2 [Return] l e])
          (py_files E)"
  have "list_all (\<lambda>(ln, nm, body). length body < 20) (extract_functions E files sp)"
    if mem: "sp \<in> set (py_files E)" for sp
  proof -
    obtain t l e where "files (resolved (repo_root E) sp) = Some t"
      "parse E t = Some [FunctionDef ''foo'' 2 [Return] l e]"
      using short mem by (auto simp: list_all_iff)
    then have "extract_functions E files sp = [(l, ''foo'', ''def(2):return'')]"
      by (rule one_line_foo_records)
    then show ?thesis by simp
  qed
  then have "list_all (\<lambda>sp. list_all (\<lambda>(ln, nm, body). length body < 20)
                       (extract_functions E files sp)) (scan_sources E None)"
    by (simp add: scan_sources_def list_all_iff)
  then show a: "analyze E files None None True = ([], [])"
    by (rule analyze_all_short)
  show "extract_engine E files None None mode True
      = Inr (files, \<lparr>patches = [], extracted = [], errors = []\<rparr>)"
    using a by (rule extract_engine_no_clusters)
next
  assume h: "py_files E = [sa, sb] \<and> sa \<noteq> [] \<and> sb \<noteq> []
      \<and> inside_repo (repo_root E) sa \<and> inside_repo (repo_root E) sb
      \<and> files (resolved (repo_root E) sa) = Some ta
      \<and> files (resolved (repo_root E) sb) = Some tb
      \<and> extract_functions E files sa = [(la, nm, fp)]
      \<and> extract_functions E files sb = [(lb, nm, fp)]
      \<and> 20 \<le> length fp \<and> la \<noteq> 0
      \<and> get_function_source E files sa nm la = Some src \<and> strip src \<noteq> []
      \<and> remove_function_from_source E ta (Some nm) (Some la) \<noteq> ta
      \<and> remove_function_from_source E tb (Some nm) (Some lb) \<noteq> tb
      \<and> files (resolved (repo_root E) (choose_module [sa, sb])) = None
      \<and> mode \<noteq> ''write''"
  let ?a = "\<lparr>script = Some sa, line = Some la, name = Some nm\<rparr>"
  let ?b = "\<lparr>script = Some sb, line = Some lb, name = Some nm\<rparr>"
  let ?c = "\<lparr>hash = hash_body E fp, locations = [?a, ?b]\<rparr>"
  let ?md = "choose_module [sa, sb]"
  let ?m = "mapping (propose E files (Some [?c]) False)"
  have an: "fst (analyze E files None None True) = [?c]"
    using h analyze_two_copies [of E sa sb files la nm fp lb] by simp
  then show "map locations (fst (analyze E files None None True)) = [[?a, ?b]]"
    by simp
  have md: "mapping_get ?m nm = ?md"
    by (rule mapping_of_one_cluster)
  have src: "src \<noteq> []"
    using h by (auto simp: strip_def lstrip_def rstrip_def)
  have md': "mapping_get ?m (case name ?a of None \<Rightarrow> ''?'' | Some n \<Rightarrow> n) = ?md"
    using md by simp
  have sel: "case None of None \<Rightarrow> True | Some sel \<Rightarrow> int 0 \<in> set sel"
    by simp
  have shape: "locations ?c = ?a # ?b # []" "length (remdups (map name (locations ?c))) \<le> 1"
    by simp_all
  have first: "script ?a = Some sa" "sa \<noteq> []" "line ?a = Some la" "la \<noteq> 0"
    "get_function_source E files sa (case name ?a of None \<Rightarrow> ''?'' | Some n \<Rightarrow> n) la
       = Some src"
    using h by simp_all
  have canon: "extract_clusters E files None ?m 0 [?c] ([], [], [], []) =
      (case extract_locs E files ?md [?a, ?b] ([], []) of
         Inl err \<Rightarrow> Inl err
       | Inr (sps', exs') \<Rightarrow>
           extract_clusters E files None ?m (Suc 0) []
             (sps', exs', [], setdefault_append ?md src []))"
    using extract_clusters_canonical [where m = ?m and cs = "[]" and sps = "[]"
        and exs = "[]" and errs = "[]" and libs = "[]",
        OF sel shape first src]
    unfolding md' by (simp del: extract_clusters.simps extract_locs.simps)
  obtain p2 where p2: "path p2 = sa" "summary p2 = ''Edit '' @ sa" "risk p2 = ''high''"
    "extract_locs E files ?md [?a, ?b] ([], []) =
       extract_locs E files ?md [?b]
         ([p2], [\<lparr>ex_function = Some nm, ex_script = sa, ex_module = ?md\<rparr>])"
    using extract_locs_step [where loc = ?a and sp = sa and E = E and files = files
        and t = ta and md = ?md and locs = "[?b]" and sps = "[]" and exs = "[]"] h
    by (auto simp del: extract_locs.simps)
  obtain p3 where p3: "path p3 = sb" "summary p3 = ''Edit '' @ sb" "risk p3 = ''high''"
    "extract_locs E files ?md [?b] ([p2], [\<lparr>ex_function = Some nm, ex_script = sa,
          ex_module = ?md\<rparr>]) =
       extract_locs E files ?md []
         ([p2, p3], [\<lparr>ex_function = Some nm, ex_script = sa, ex_module = ?md\<rparr>,
                     \<lparr>ex_function = Some nm, ex_script = sb, ex_module = ?md\<rparr>])"
    using extract_locs_step [where loc = ?b and sp = sb and E = E and files = files
        and t = tb and md = ?md and locs = "[]" and sps = "[p2]"
        and exs = "[\<lparr>ex_function = Some nm, ex_script = sa, ex_module = ?md\<rparr>]"] h
    by (auto simp del: extract_locs.simps)
  have locs: "extract_locs E files ?md [?a, ?b] ([], []) =
      Inr ([p2, p3], [\<lparr>ex_function = Some nm, ex_script = sa, ex_module = ?md\<rparr>,
                      \<lparr>ex_function = Some nm, ex_script = sb, ex_module = ?md\<rparr>])"
    by (simp only: p2(4) p3(4) extract_locs.simps(1))
  obtain p1 where p1: "create_add_file_patch (repo_root E) ?md src ''medium'' = Inr p1"
    "path p1 = ?md" "summary p1 = ''Add '' @ ?md" "risk p1 = ''medium''"
    using create_add_file_patch_inside [OF module_path_inside, of "repo_root E" "[sa, sb]"
        src "''medium''"]
    by blast
  have lib: "lib_patches_loop E files [(?md, [src])] [] = Inr [p1]"
    using h src p1(1) by (simp add: Let_def)
  have eng: "extract_engine E files None None mode True =
      Inr (files,
           \<lparr>patches = [p1, p2, p3],
            extracted = [\<lparr>ex_function = Some nm, ex_script = sa, ex_module = ?md\<rparr>,
                         \<lparr>ex_function = Some nm, ex_script = sb, ex_module = ?md\<rparr>],
            errors = []\<rparr>)"
    using h
    by (simp add: extract_engine_def Let_def an canon locs lib src p1(1)
        del: extract_clusters.simps(2) extract_locs.simps(2))
  show "map_sum id (\<lambda>(f, r). (map path (patches r), map summary (patches r),
                                    map risk (patches r), extracted r, errors r))
              (extract_engine E files None None mode True)
            = Inr ([?md, sa, sb],
                   [''Add '' @ ?md, ''Edit '' @ sa, ''Edit '' @ sb],
                   [''medium'', ''high'', ''high''],
                   [\<lparr>ex_function = Some nm, ex_script = sa, ex_module = ?md\<rparr>,
                    \<lparr>ex_function = Some nm, ex_script = sb, ex_module = ?md\<rparr>],
                   [])"
    unfolding eng using p1 p2 p3 by simp
  show "map_sum id fst (extract_engine E files None None mode True) = Inr files"
    unfolding eng by simp
qed

theorem C2_two_copies_scenario_witness:
  "map locations (fst (analyze demo_env (demo_files plain_text) None None True))
     = [[\<lparr>script = Some ''A.pushbutton/script.py'', line = Some 1, name = Some ''foo''\<rparr>,
         \<lparr>script = Some ''B.pushbutton/script.py'', line = Some 1, name = Some ''foo''\<rparr>]]
   \<and> map_sum id (\<lambda>(f, r). (map path (patches r), map summary (patches r),
                             map risk (patches r), extracted r, errors r))
       (extract_engine demo_env (demo_files plain_text) None None ''dry_run'' True)
     = Inr ([''lib/utils.py'', ''A.pushbutton/script.py'', ''B.pushbutton/script.py''],
            [''Add lib/utils.py'', ''Edit A.pushbutton/script.py'',
             ''Edit B.pushbutton/script.py''],
            [''medium'', ''high'', ''high''],
            [\<lparr>ex_function = Some ''foo'', ex_script = ''A.pushbutton/script.py'',
               ex_module = ''lib/utils.py''\<rparr>,
             \<lparr>ex_function = Some ''foo'', ex_script = ''B.pushbutton/script.py'',
               ex_module = ''lib/utils.py''\<rparr>],
            [])
   \<and> map_sum id fst
       (extract_engine demo_env (demo_files plain_text) None None ''dry_run'' True)
     = Inr (demo_files plain_text)
   \<and> analyze demo_env (demo_files foo_text) None None True = ([], [])
   \<and> extract_engine demo_env (demo_files foo_text) None None ''dry_run'' True
     = Inr (demo_files foo_text, \<lparr>patches = [], extracted = [], errors = []\<rparr>)"
proof -
  let ?A = "''A.pushbutton/script.py''"
  let ?B = "''B.pushbutton/script.py''"
  let ?src = "''def foo(a, b):'' @ nl @ ''    x = a'' @ nl @ ''    y = b'' @ nl
     @ ''    return x + y''"
  have md: "choose_module [?A, ?B] = ''lib/utils.py''"
    by code_simp
  have two: "py_files demo_env = [?A, ?B] \<and> ?A \<noteq> [] \<and> ?B \<noteq> []
      \<and> inside_repo (repo_root demo_env) ?A \<and> inside_repo (repo_root demo_env) ?B
      \<and> demo_files plain_text (resolved (repo_root demo_env) ?A) = Some plain_text
      \<and> demo_files plain_text (resolved (repo_root demo_env) ?B) = Some plain_text
      \<and> extract_functions demo_env (demo_files plain_text) ?A
          = [(1, ''foo'', ''def(2):assignassignreturn'')]
      \<and> extract_functions demo_env (demo_files plain_text) ?B
          = [(1, ''foo'', ''def(2):assignassignreturn'')]
      \<and> 20 \<le> length ''def(2):assignassignreturn'' \<and> (1 :: int) \<noteq> 0
      \<and> get_function_source demo_env (demo_files plain_text) ?A ''foo'' 1 = Some ?src
      \<and> strip ?src \<noteq> []
      \<and> remove_function_from_source demo_env plain_text (Some ''foo'') (Some 1) \<noteq> plain_text
      \<and> remove_function_from_source demo_env plain_text (Some ''foo'') (Some 1) \<noteq> plain_text
      \<and> demo_files plain_text (resolved (repo_root demo_env) (choose_module [?A, ?B])) = None
      \<and> ''dry_run'' \<noteq> ''write''"
    by code_simp
  have one: "list_all (\<lambda>sp. \<exists>t l e. demo_files foo_text (resolved (repo_root demo_env) sp) = Some t
                 \<and> parse demo_env t = Some [FunctionDef ''foo'' 2 [Return] l e])
        (py_files demo_env)"
  proof -
    have a: "demo_files foo_text (resolved (repo_root demo_env) ?A) = Some foo_text
        \<and> parse demo_env foo_text = Some [FunctionDef ''foo'' 2 [Return] 1 1]"
      by code_simp
    have b: "demo_files foo_text (resolved (repo_root demo_env) ?B) = Some foo_text
        \<and> parse demo_env foo_text = Some [FunctionDef ''foo'' 2 [Return] 1 1]"
      by code_simp
    have p: "py_files demo_env = [?A, ?B]"
      by code_simp
    have ea: "\<exists>t l e. demo_files foo_text (resolved (repo_root demo_env) ?A) = Some t
        \<and> parse demo_env t = Some [FunctionDef ''foo'' 2 [Return] l e]"
      by (rule exI [where x = foo_text], rule exI [where x = 1], rule exI [where x = 1],
          rule a)
    have eb: "\<exists>t l e. demo_files foo_text (resolved (repo_root demo_env) ?B) = Some t
        \<and> parse demo_env t = Some [FunctionDef ''foo'' 2 [Return] l e]"
      by (rule exI [where x = foo_text], rule exI [where x = 1], rule exI [where x = 1],
          rule b)
    show ?thesis
      unfolding p using ea eb by (simp only: list.pred_inject simp_thms)
  qed
  note first = C2_two_copies_scenario [where E = demo_env and files = "demo_files plain_text"
      and sa = ?A and sb = ?B and ta = plain_text and tb = plain_text and la = 1 and lb = 1
      and nm = "''foo''" and fp = "''def(2):assignassignreturn''" and src = ?src
      and mode = "''dry_run''", THEN conjunct1, rule_format, OF two]
  note second = C2_two_copies_scenario [where E = demo_env and files = "demo_files foo_text"
      and mode = "''dry_run''", THEN conjunct2, rule_format, OF one]
  show ?thesis
    using first second unfolding md by simp
qed

text \<open>
  The scenario as the specification words it: the fingerprint of
  \<open>def foo(a, b): return a+b\<close> has 13 characters, so the two copies form no cluster and the
  extraction has nothing to do.
\<close>

theorem C2_one_line_foo_not_clustered:
  "extract_functions demo_env (demo_files foo_text) ''A.pushbutton/script.py''
     = [(1, ''foo'', ''def(2):return'')]
   \<and> extract_functions demo_env (demo_files foo_text) ''B.pushbutton/script.py''
     = [(1, ''foo'', ''def(2):return'')]
   \<and> length (fst (analyze demo_env (demo_files foo_text) None None True)) = 0
   \<and> map_sum id (\<lambda>(f, r). (length (patches r), length (extracted r), length (errors r)))
       (extract_engine demo_env (demo_files foo_text) None None ''dry_run'' True)
     = Inr (0, 0, 0)"
  by code_simp

end
